theory Spec2Isabelle
  imports Complex_Main "HOL-Library.AList" "HOL-Library.Sublist" "HOL-Library.Word"
begin

section \<open>Python values and the external libraries\<close>

text \<open>
  The script \<^verbatim>\<open>demo_all_px_templates.py\<close> is a pipeline of calls into plotly, pandas and
  numpy. Its own code is embedded below function by function; what the libraries do is a
  parameter (the record \<open>env\<close>).

  A raised exception is a value of type \<open>error\<close>. The type stands for the instances of
  Python's class \<^verbatim>\<open>Exception\<close>, which is what the script's \<^verbatim>\<open>except Exception\<close> clauses catch;
  \<open>str_of e\<close> is \<^verbatim>\<open>str(e)\<close>. A function that can raise returns \<open>error + 'a\<close>, with \<open>Inl\<close> for
  the raise.
\<close>

datatype error = Exception (str_of: string)

type_synonym 'a result = "error + 'a"

text \<open>
  Data frames are kept as the expressions that build them: a bundled example dataset
  (\<^verbatim>\<open>px.data.tips()\<close>), a query or a head of a frame, a frame made from a list of records or
  from columns, a concatenation along an axis. A float literal is its decimal value.
\<close>

datatype cell = CInt int | CNum rat | CStr string

datatype frame =
    Dataset string
  | Query frame string
  | Head frame nat
  | Records "(string \<times> cell) list list"
  | Columns "(string \<times> cell list) list"
  | Concat "frame list" int

text \<open>
  The values that occur as keyword arguments and as entries of the tables. A class is
  \<open>PType\<close> with its name; a trace object is the class and the keyword arguments it was
  built from; a template is the named default, a template with its \<^verbatim>\<open>data\<close> attribute, or
  the merge of two templates.
\<close>

datatype pyval =
    PNone
  | PBool bool
  | PInt int
  | PStr string
  | PList "pyval list"
  | PDict "(string \<times> pyval) list"
  | PType string
  | PFrame frame
  | PConstant string
  | PArray "rat list list"
  | PTemplate template
and template =
    NamedTemplate string
  | Template "(string \<times> trace list) list"
  | Merged template template
and trace = Trace string "(string \<times> pyval) list"

type_synonym kwargs = "(string \<times> pyval) list"

datatype figure = Figure string

type_synonym px_fn = "kwargs \<Rightarrow> figure result"

type_synonym byte = "8 word"

text \<open>
  The libraries and the file system:
  \<^item> \<open>px lib name\<close> is the function \<^verbatim>\<open>plotly.express.<name>\<close>;
  \<^item> \<open>library_error lib call\<close> is the exception that the library call named \<open>call\<close>
    (a dataset loader, a data frame operation, the random generator) raises, if it raises;
  \<^item> \<open>construct_error lib cls kw\<close> is the exception that calling the class \<open>cls\<close> with the
    keyword arguments \<open>kw\<close> raises, if it raises;
  \<^item> \<open>has_attr lib t path\<close> is \<^verbatim>\<open>hasattr\<close> along an attribute path of a trace;
  \<^item> \<open>write_image lib fig format width height scale\<close> is the image export, returning
    the bytes written to the buffer;
  \<^item> \<open>write_file lib name content\<close> is the exception that writing the file raises, if any.
\<close>

record env =
  px :: "string \<Rightarrow> px_fn"
  library_error :: "string \<Rightarrow> error option"
  construct_error :: "string \<Rightarrow> kwargs \<Rightarrow> error option"
  has_attr :: "trace \<Rightarrow> string list \<Rightarrow> bool"
  write_image :: "figure \<Rightarrow> string \<Rightarrow> nat \<Rightarrow> nat \<Rightarrow> nat \<Rightarrow> (byte list) result"
  write_file :: "string \<Rightarrow> string \<Rightarrow> error option"

definition try_except :: "'a result \<Rightarrow> (error \<Rightarrow> 'a result) \<Rightarrow> 'a result" where
  "try_except body handler = (case body of Inl e \<Rightarrow> handler e | Inr v \<Rightarrow> Inr v)"

definition go_new :: "env \<Rightarrow> string \<Rightarrow> kwargs \<Rightarrow> trace result" where
  "go_new lib cls kw =
     (case construct_error lib cls kw of Some e \<Rightarrow> Inl e | None \<Rightarrow> Inr (Trace cls kw))"

definition marker_color :: "string \<Rightarrow> kwargs" where
  "marker_color color = [(''marker'', PDict [(''color'', PStr color)])]"

subsection \<open>String helpers of Python\<close>

text \<open>ASCII letters only are cased; every name and tag of the script is ASCII.\<close>

definition islower :: "char \<Rightarrow> bool" where
  "islower c = (97 \<le> (of_char c :: nat) \<and> (of_char c :: nat) \<le> 122)"

definition isupper :: "char \<Rightarrow> bool" where
  "isupper c = (65 \<le> (of_char c :: nat) \<and> (of_char c :: nat) \<le> 90)"

definition upper :: "char \<Rightarrow> char" where
  "upper c = (if islower c then char_of ((of_char c :: nat) - 32) else c)"

definition lower :: "char \<Rightarrow> char" where
  "lower c = (if isupper c then char_of ((of_char c :: nat) + 32) else c)"

definition capitalize :: "string \<Rightarrow> string" where
  "capitalize s = (case s of [] \<Rightarrow> [] | c # cs \<Rightarrow> upper c # map lower cs)"

fun title_from :: "bool \<Rightarrow> string \<Rightarrow> string" where
  "title_from prev_cased [] = []"
| "title_from prev_cased (c # cs) =
     (if islower c then (if prev_cased then c else upper c) # title_from True cs
      else if isupper c then (if prev_cased then lower c else c) # title_from True cs
      else c # title_from False cs)"

definition title :: "string \<Rightarrow> string" where
  "title s = title_from False s"

definition replace_char :: "char \<Rightarrow> char \<Rightarrow> string \<Rightarrow> string" where
  "replace_char a b s = map (\<lambda>c. if c = a then b else c) s"

definition ljust :: "nat \<Rightarrow> string \<Rightarrow> string" where
  "ljust n s = s @ replicate (n - length s) (CHR '' '')"

definition digit :: "nat \<Rightarrow> char" where
  "digit d = ''0123456789'' ! d"

function str_of_nat :: "nat \<Rightarrow> string" where
  "str_of_nat n = (if n < 10 then [digit n] else str_of_nat (n div 10) @ [digit (n mod 10)])"
  by pat_completeness auto
termination
  by (relation "measure id") auto

declare str_of_nat.simps [simp del]

subsection \<open>Base64 (\<^verbatim>\<open>base64.b64encode\<close> followed by \<^verbatim>\<open>decode('utf-8')\<close>)\<close>

definition b64_alphabet :: string where
  "b64_alphabet = ''ABCDEFGHIJKLMNOPQRSTUVWXYZabcdefghijklmnopqrstuvwxyz0123456789+/''"

definition b64char :: "nat \<Rightarrow> char" where
  "b64char i = b64_alphabet ! (i mod 64)"

fun b64encode :: "byte list \<Rightarrow> string" where
  "b64encode [] = []"
| "b64encode [a] =
     (let n = unat a * 65536
      in [b64char (n div 262144), b64char (n div 4096), CHR ''='', CHR ''=''])"
| "b64encode [a, b] =
     (let n = unat a * 65536 + unat b * 256
      in [b64char (n div 262144), b64char (n div 4096), b64char (n div 64), CHR ''=''])"
| "b64encode (a # b # c # rest) =
     (let n = unat a * 65536 + unat b * 256 + unat c
      in [b64char (n div 262144), b64char (n div 4096), b64char (n div 64), b64char n]
         @ b64encode rest)"

section \<open>Configuration: the table of all px functions\<close>

text \<open>
  \<^verbatim>\<open>PX_FUNCTIONS\<close>: plot-kind name to (px function, trace constructor, trace type). The
  dictionary is iterated in insertion order, so it is an association list. The constructor
  of \<^verbatim>\<open>timeline\<close> is the string \<^verbatim>\<open>"timeline"\<close>, not a class.
\<close>

definition PX_FUNCTIONS :: "env \<Rightarrow> (string \<times> px_fn \<times> pyval \<times> string) list" where
  "PX_FUNCTIONS lib =
   [(''scatter'', px lib ''scatter'', PType ''Scatter'', ''scatter''),
    (''line'', px lib ''line'', PType ''Scatter'', ''scatter''),
    (''area'', px lib ''area'', PType ''Scatter'', ''scatter''),
    (''bar'', px lib ''bar'', PType ''Bar'', ''bar''),
    (''timeline'', px lib ''timeline'', PStr ''timeline'', ''bar''),
    (''histogram'', px lib ''histogram'', PType ''Histogram'', ''histogram''),
    (''ecdf'', px lib ''ecdf'', PType ''Scatter'', ''scatter''),
    (''violin'', px lib ''violin'', PType ''Violin'', ''violin''),
    (''box'', px lib ''box'', PType ''Box'', ''box''),
    (''strip'', px lib ''strip'', PType ''Box'', ''box''),
    (''scatter_3d'', px lib ''scatter_3d'', PType ''Scatter3d'', ''scatter3d''),
    (''line_3d'', px lib ''line_3d'', PType ''Scatter3d'', ''scatter3d''),
    (''scatter_ternary'', px lib ''scatter_ternary'', PType ''Scatterternary'', ''scatterternary''),
    (''line_ternary'', px lib ''line_ternary'', PType ''Scatterternary'', ''scatterternary''),
    (''scatter_polar'', px lib ''scatter_polar'', PType ''Scatterpolar'', ''scatterpolar''),
    (''line_polar'', px lib ''line_polar'', PType ''Scatterpolar'', ''scatterpolar''),
    (''bar_polar'', px lib ''bar_polar'', PType ''Barpolar'', ''barpolar''),
    (''scatter_geo'', px lib ''scatter_geo'', PType ''Scattergeo'', ''scattergeo''),
    (''line_geo'', px lib ''line_geo'', PType ''Scattergeo'', ''scattergeo''),
    (''choropleth'', px lib ''choropleth'', PType ''Choropleth'', ''choropleth''),
    (''scatter_map'', px lib ''scatter_map'', PType ''Scattermap'', ''scattermap''),
    (''line_map'', px lib ''line_map'', PType ''Scattermap'', ''scattermap''),
    (''choropleth_map'', px lib ''choropleth_map'', PType ''Choroplethmap'', ''choroplethmap''),
    (''density_map'', px lib ''density_map'', PType ''Densitymap'', ''densitymap''),
    (''scatter_mapbox'', px lib ''scatter_mapbox'', PType ''Scattermapbox'', ''scattermapbox''),
    (''line_mapbox'', px lib ''line_mapbox'', PType ''Scattermapbox'', ''scattermapbox''),
    (''choropleth_mapbox'', px lib ''choropleth_mapbox'', PType ''Choroplethmapbox'',
       ''choroplethmapbox''),
    (''density_mapbox'', px lib ''density_mapbox'', PType ''Densitymapbox'', ''densitymapbox''),
    (''scatter_matrix'', px lib ''scatter_matrix'', PType ''Splom'', ''splom''),
    (''parallel_coordinates'', px lib ''parallel_coordinates'', PType ''Parcoords'', ''parcoords''),
    (''parallel_categories'', px lib ''parallel_categories'', PType ''Parcats'', ''parcats''),
    (''density_contour'', px lib ''density_contour'', PType ''Histogram2dContour'',
       ''histogram2dcontour''),
    (''density_heatmap'', px lib ''density_heatmap'', PType ''Histogram2d'', ''histogram2d''),
    (''pie'', px lib ''pie'', PType ''Pie'', ''pie''),
    (''sunburst'', px lib ''sunburst'', PType ''Sunburst'', ''sunburst''),
    (''treemap'', px lib ''treemap'', PType ''Treemap'', ''treemap''),
    (''icicle'', px lib ''icicle'', PType ''Icicle'', ''icicle''),
    (''funnel'', px lib ''funnel'', PType ''Funnel'', ''funnel''),
    (''funnel_area'', px lib ''funnel_area'', PType ''Funnelarea'', ''funnelarea''),
    (''imshow'', px lib ''imshow'', PType ''Image'', ''image'')]"

section \<open>Template creation\<close>

definition template_colors :: "string list" where
  "template_colors = [''purple'', ''lime'', ''magenta'']"

text \<open>\<^verbatim>\<open>trace_constructors\<close>: trace type name to the class (all thirteen are classes).\<close>

definition trace_constructors :: "(string \<times> string) list" where
  "trace_constructors =
   [(''scatter'', ''Scatter''),
    (''bar'', ''Bar''),
    (''histogram'', ''Histogram''),
    (''box'', ''Box''),
    (''violin'', ''Violin''),
    (''scatter3d'', ''Scatter3d''),
    (''scatterternary'', ''Scatterternary''),
    (''scatterpolar'', ''Scatterpolar''),
    (''barpolar'', ''Barpolar''),
    (''scattergeo'', ''Scattergeo''),
    (''scattermap'', ''Scattermap''),
    (''funnel'', ''Funnel''),
    (''splom'', ''Splom'')]"

text \<open>The inner loop: \<^verbatim>\<open>trace_list.append(constructor(marker=dict(color=color)))\<close>.\<close>

fun build_trace_list :: "env \<Rightarrow> string \<Rightarrow> string list \<Rightarrow> trace list \<Rightarrow> (trace list) result" where
  "build_trace_list lib cls [] trace_list = Inr trace_list"
| "build_trace_list lib cls (color # colors) trace_list =
     (case go_new lib cls (marker_color color) of
        Inl e \<Rightarrow> Inl e
      | Inr t \<Rightarrow> build_trace_list lib cls colors (trace_list @ [t]))"

text \<open>The outer loop: \<^verbatim>\<open>setattr(custom_template.data, trace_type, trace_list)\<close>.\<close>

fun fill_template_data ::
  "env \<Rightarrow> (string \<times> string) list \<Rightarrow> (string \<times> trace list) list
     \<Rightarrow> ((string \<times> trace list) list) result" where
  "fill_template_data lib [] data = Inr data"
| "fill_template_data lib ((trace_type, cls) # rest) data =
     (case build_trace_list lib cls template_colors [] of
        Inl e \<Rightarrow> Inl e
      | Inr trace_list \<Rightarrow> fill_template_data lib rest (AList.update trace_type trace_list data))"

definition merge_templates :: "template \<Rightarrow> template \<Rightarrow> template" where
  "merge_templates a b = Merged a b"

definition create_comprehensive_template :: "env \<Rightarrow> template result" where
  "create_comprehensive_template lib =
     (let default_template = NamedTemplate ''plotly''
      in case fill_template_data lib trace_constructors [] of
           Inl e \<Rightarrow> Inl e
         | Inr data \<Rightarrow> Inr (merge_templates default_template (Template data)))"

section \<open>Helper functions\<close>

definition is_type :: "pyval \<Rightarrow> bool" where
  "is_type v = (case v of PType cls \<Rightarrow> True | _ \<Rightarrow> False)"

definition call_constructor :: "env \<Rightarrow> pyval \<Rightarrow> kwargs \<Rightarrow> trace result" where
  "call_constructor lib constructor kw =
     (case constructor of
        PType cls \<Rightarrow> go_new lib cls kw
      | _ \<Rightarrow> Inl (Exception ''object is not callable''))"

definition has_marker_color :: "env \<Rightarrow> trace \<Rightarrow> bool" where
  "has_marker_color lib t = (has_attr lib t [''marker''] \<and> has_attr lib t [''marker'', ''color''])"

definition test_trace_supports_marker_color :: "env \<Rightarrow> pyval \<Rightarrow> bool result" where
  "test_trace_supports_marker_color lib constructor =
     try_except
       (if constructor = PStr ''timeline'' then
          (case go_new lib ''Bar'' (marker_color ''red'') of
             Inl e \<Rightarrow> Inl e
           | Inr t \<Rightarrow> Inr (has_marker_color lib t))
        else if is_type constructor then
          (case call_constructor lib constructor (marker_color ''red'') of
             Inl e \<Rightarrow> Inl e
           | Inr t \<Rightarrow> Inr (has_marker_color lib t))
        else Inr False)
       (\<lambda>e. Inr False)"

definition constructor_map :: "(string \<times> string) list" where
  "constructor_map =
   [(''scatter'', ''Scatter''),
    (''bar'', ''Bar''),
    (''histogram'', ''Histogram''),
    (''box'', ''Box''),
    (''violin'', ''Violin''),
    (''scatter3d'', ''Scatter3d''),
    (''scatterternary'', ''Scatterternary''),
    (''scatterpolar'', ''Scatterpolar''),
    (''barpolar'', ''Barpolar''),
    (''scattergeo'', ''Scattergeo''),
    (''scattermap'', ''Scattermap''),
    (''funnel'', ''Funnel''),
    (''splom'', ''Splom'')]"

definition get_constructor_name :: "string \<Rightarrow> string" where
  "get_constructor_name trace_type =
     (case map_of constructor_map trace_type of
        Some name \<Rightarrow> name
      | None \<Rightarrow> capitalize trace_type)"

section \<open>Plot data configuration\<close>

text \<open>
  \<^verbatim>\<open>get_plot_args\<close> loads the datasets and builds the whole table at every call, and with
  it one fresh \<^verbatim>\<open>np.random.rand(10, 10)\<close>: the parameter \<open>img\<close> is the array drawn at this
  call. An entry is a dictionary of keyword arguments, or \<open>None\<close> for Python's \<^verbatim>\<open>None\<close>.
  \<open>args_map\<close> is the table once every library call has returned.
\<close>

definition tips :: frame where
  "tips = Dataset ''tips''"

definition iris :: frame where
  "iris = Dataset ''iris''"

definition gapminder :: frame where
  "gapminder = Query (Dataset ''gapminder'') ''year == 2007''"

definition df_line :: frame where
  "df_line = Query (Dataset ''gapminder'') ''country in ['Canada', 'Botswana', 'Brazil']''"

definition wind :: frame where
  "wind = Dataset ''wind''"

definition election :: frame where
  "election = Dataset ''election''"

definition funnel_stages :: "cell list" where
  "funnel_stages = [CStr ''Website visit'', CStr ''Downloads'', CStr ''Potential customers'',
     CStr ''Requested price'', CStr ''invoice sent'']"

definition hierarchy_path :: pyval where
  "hierarchy_path = PList [PConstant ''all'', PStr ''sex'', PStr ''day'', PStr ''time'']"

definition args_map :: "rat list list \<Rightarrow> (string \<times> kwargs option) list" where
  "args_map img =
   [(''scatter'', Some [(''data_frame'', PFrame iris), (''x'', PStr ''sepal_width''),
       (''y'', PStr ''sepal_length''), (''color'', PStr ''species'')]),
    (''line'', Some [(''data_frame'', PFrame df_line), (''x'', PStr ''year''),
       (''y'', PStr ''lifeExp''), (''color'', PStr ''country'')]),
    (''area'', Some [(''data_frame'', PFrame df_line), (''x'', PStr ''year''),
       (''y'', PStr ''lifeExp''), (''color'', PStr ''country'')]),
    (''bar'', Some [(''data_frame'', PFrame tips), (''x'', PStr ''day''),
       (''y'', PStr ''total_bill''), (''color'', PStr ''sex'')]),
    (''timeline'', Some [(''data_frame'', PFrame (Records
         [[(''Task'', CStr ''Job A''), (''Start'', CStr ''2009-01-01''),
           (''Finish'', CStr ''2009-02-28''), (''Resource'', CStr ''Alex'')],
          [(''Task'', CStr ''Job B''), (''Start'', CStr ''2009-03-05''),
           (''Finish'', CStr ''2009-04-15''), (''Resource'', CStr ''Alex'')],
          [(''Task'', CStr ''Job C''), (''Start'', CStr ''2009-02-20''),
           (''Finish'', CStr ''2009-05-30''), (''Resource'', CStr ''Max'')]])),
       (''x_start'', PStr ''Start''), (''x_end'', PStr ''Finish''),
       (''y'', PStr ''Resource''), (''color'', PStr ''Resource'')]),
    (''histogram'', Some [(''data_frame'', PFrame tips), (''x'', PStr ''total_bill''),
       (''color'', PStr ''sex'')]),
    (''ecdf'', Some [(''data_frame'', PFrame tips), (''x'', PStr ''total_bill''),
       (''color'', PStr ''sex'')]),
    (''violin'', Some [(''data_frame'', PFrame tips), (''x'', PStr ''day''),
       (''y'', PStr ''total_bill''), (''color'', PStr ''sex'')]),
    (''box'', Some [(''data_frame'', PFrame tips), (''x'', PStr ''day''),
       (''y'', PStr ''total_bill''), (''color'', PStr ''sex'')]),
    (''strip'', Some [(''data_frame'', PFrame tips), (''x'', PStr ''day''),
       (''y'', PStr ''total_bill''), (''color'', PStr ''sex'')]),
    (''scatter_3d'', Some [(''data_frame'', PFrame iris), (''x'', PStr ''sepal_length''),
       (''y'', PStr ''sepal_width''), (''z'', PStr ''petal_length''),
       (''color'', PStr ''species'')]),
    (''line_3d'', Some [(''data_frame'', PFrame iris), (''x'', PStr ''sepal_length''),
       (''y'', PStr ''sepal_width''), (''z'', PStr ''petal_length''),
       (''color'', PStr ''species'')]),
    (''scatter_ternary'', Some [(''data_frame'', PFrame election), (''a'', PStr ''Joly''),
       (''b'', PStr ''Coderre''), (''c'', PStr ''Bergeron''), (''color'', PStr ''winner'')]),
    (''line_ternary'', Some [(''data_frame'', PFrame election), (''a'', PStr ''Joly''),
       (''b'', PStr ''Coderre''), (''c'', PStr ''Bergeron''), (''color'', PStr ''winner'')]),
    (''scatter_polar'', Some [(''data_frame'', PFrame wind), (''r'', PStr ''frequency''),
       (''theta'', PStr ''direction''), (''color'', PStr ''strength'')]),
    (''line_polar'', Some [(''data_frame'', PFrame wind), (''r'', PStr ''frequency''),
       (''theta'', PStr ''direction''), (''color'', PStr ''strength''),
       (''line_close'', PBool True)]),
    (''bar_polar'', Some [(''data_frame'', PFrame wind), (''r'', PStr ''frequency''),
       (''theta'', PStr ''direction''), (''color'', PStr ''strength'')]),
    (''scatter_geo'', None),
    (''line_geo'', None),
    (''choropleth'', Some [(''data_frame'', PFrame gapminder), (''locations'', PStr ''iso_alpha''),
       (''color'', PStr ''lifeExp''), (''hover_name'', PStr ''country'')]),
    (''scatter_map'', None),
    (''line_map'', None),
    (''choropleth_map'', Some [(''data_frame'', PFrame gapminder), (''geojson'', PNone),
       (''locations'', PStr ''iso_alpha''), (''color'', PStr ''lifeExp'')]),
    (''density_map'', None),
    (''scatter_mapbox'', None),
    (''line_mapbox'', None),
    (''choropleth_mapbox'', Some [(''data_frame'', PFrame gapminder), (''geojson'', PNone),
       (''locations'', PStr ''iso_alpha''), (''color'', PStr ''lifeExp'')]),
    (''density_mapbox'', None),
    (''scatter_matrix'', Some [(''data_frame'', PFrame iris),
       (''dimensions'', PList [PStr ''sepal_width'', PStr ''sepal_length'', PStr ''petal_width'']),
       (''color'', PStr ''species'')]),
    (''parallel_coordinates'', Some [(''data_frame'', PFrame iris),
       (''dimensions'', PList [PStr ''sepal_width'', PStr ''sepal_length'', PStr ''petal_width'']),
       (''color'', PStr ''species'')]),
    (''parallel_categories'', Some [(''data_frame'', PFrame (Head tips 20)),
       (''dimensions'', PList [PStr ''sex'', PStr ''smoker'', PStr ''day'']),
       (''color'', PStr ''time'')]),
    (''density_contour'', Some [(''data_frame'', PFrame tips), (''x'', PStr ''total_bill''),
       (''y'', PStr ''tip''), (''color'', PStr ''sex'')]),
    (''density_heatmap'', Some [(''data_frame'', PFrame tips), (''x'', PStr ''total_bill''),
       (''y'', PStr ''tip'')]),
    (''pie'', Some [(''data_frame'', PFrame tips), (''names'', PStr ''day''),
       (''values'', PStr ''total_bill'')]),
    (''sunburst'', Some [(''data_frame'', PFrame tips), (''path'', hierarchy_path),
       (''values'', PStr ''total_bill''), (''color'', PStr ''day'')]),
    (''treemap'', Some [(''data_frame'', PFrame tips), (''path'', hierarchy_path),
       (''values'', PStr ''total_bill''), (''color'', PStr ''day'')]),
    (''icicle'', Some [(''data_frame'', PFrame tips), (''path'', hierarchy_path),
       (''values'', PStr ''total_bill''), (''color'', PStr ''day'')]),
    (''funnel'', Some [(''data_frame'', PFrame (Concat
         [Columns [(''number'', [CInt 39, CNum (274 / 10), CNum (206 / 10), CInt 11, CInt 3]),
                   (''stage'', funnel_stages),
                   (''office'', replicate 5 (CStr ''Montreal''))],
          Columns [(''number'', [CInt 52, CInt 36, CInt 18, CInt 14, CInt 5]),
                   (''stage'', funnel_stages),
                   (''office'', replicate 5 (CStr ''Toronto''))]] 0)),
       (''x'', PStr ''number''), (''y'', PStr ''stage''), (''color'', PStr ''office'')]),
    (''funnel_area'', Some [
       (''names'', PList [PStr ''The 1st'', PStr ''The 2nd'', PStr ''The 3rd'', PStr ''The 4th'',
          PStr ''The 5th'']),
       (''values'', PList [PInt 5, PInt 4, PInt 3, PInt 2, PInt 1])]),
    (''imshow'', Some [(''img'', PArray img)])]"

text \<open>
  The library calls that \<^verbatim>\<open>get_plot_args\<close> makes at every call, in the order of the source:
  the six datasets with their queries, then the calls inside the dictionary literal. None
  of them is inside a \<^verbatim>\<open>try\<close> block: the first one that raises ends \<^verbatim>\<open>get_plot_args\<close> with
  its exception.
\<close>

definition plot_data_calls :: "string list" where
  "plot_data_calls =
     [''px.data.tips'', ''px.data.iris'', ''px.data.gapminder'', ''DataFrame.query'',
      ''px.data.gapminder'', ''DataFrame.query'', ''px.data.wind'', ''px.data.election'',
      ''pd.DataFrame'', ''DataFrame.head'', ''px.Constant'', ''px.Constant'', ''px.Constant'',
      ''pd.DataFrame'', ''pd.DataFrame'', ''pd.concat'', ''np.random.rand'']"

fun first_error :: "(string \<Rightarrow> error option) \<Rightarrow> string list \<Rightarrow> error option" where
  "first_error raises [] = None"
| "first_error raises (call # calls) =
     (case raises call of
        Some e \<Rightarrow> Some e
      | None \<Rightarrow> first_error raises calls)"

definition data_error :: "env \<Rightarrow> error option" where
  "data_error lib = first_error (library_error lib) plot_data_calls"

text \<open>\<^verbatim>\<open>args_map.get(px_name, {})\<close>: an unknown name gives the empty dictionary.\<close>

definition args_map_get :: "rat list list \<Rightarrow> string \<Rightarrow> kwargs option" where
  "args_map_get img px_name =
     (case map_of (args_map img) px_name of
        Some entry \<Rightarrow> entry
      | None \<Rightarrow> Some [])"

definition get_plot_args :: "env \<Rightarrow> rat list list \<Rightarrow> string \<Rightarrow> px_fn \<Rightarrow> (kwargs option) result" where
  "get_plot_args lib img px_name px_fn =
     (case data_error lib of
        Some e \<Rightarrow> Inl e
      | None \<Rightarrow> Inr (args_map_get img px_name))"

section \<open>Validation functions\<close>

definition no_discrete :: "string set" where
  "no_discrete =
     {''density_heatmap'', ''density_map'', ''density_mapbox'', ''choropleth'', ''choropleth_map'',
      ''choropleth_mapbox'', ''imshow'', ''parallel_coordinates'', ''parallel_categories''}"

definition can_use_discrete_colors ::
  "env \<Rightarrow> string \<Rightarrow> px_fn \<Rightarrow> pyval \<Rightarrow> string \<Rightarrow> (bool \<times> string option) result" where
  "can_use_discrete_colors lib px_name px_fn constructor trace_type =
     (if px_name \<in> no_discrete then Inr (False, Some ''Does not support discrete colors'')
      else
        (case test_trace_supports_marker_color lib constructor of
           Inl e \<Rightarrow> Inl e
         | Inr supported \<Rightarrow>
             if \<not> supported
             then Inr (False, Some ''Trace type does not have marker.color attribute'')
             else Inr (True, None)))"

section \<open>Plot generation\<close>

text \<open>
  The result is the pair the Python returns: the two figures or \<^verbatim>\<open>None\<close>, and the reason
  string or \<^verbatim>\<open>None\<close>. The call of \<^verbatim>\<open>get_plot_args\<close> stands before the \<^verbatim>\<open>try\<close> block, so
  an exception of it leaves \<^verbatim>\<open>create_plot_comparison\<close>. \<^verbatim>\<open>args_with_template["template"] = template\<close> on the copy is
  \<open>AList.update\<close>.
\<close>

text \<open>The body of the \<^verbatim>\<open>try\<close> block: the plot without the template, then the plot with it.\<close>

definition construct_figures :: "px_fn \<Rightarrow> kwargs \<Rightarrow> template \<Rightarrow> (figure \<times> figure) result" where
  "construct_figures px_fn args template =
     (case px_fn args of
        Inl e \<Rightarrow> Inl e
      | Inr fig_no_template \<Rightarrow>
          (let args_with_template = AList.update ''template'' (PTemplate template) args
           in case px_fn args_with_template of
                Inl e \<Rightarrow> Inl e
              | Inr fig_with_template \<Rightarrow> Inr (fig_no_template, fig_with_template)))"

definition create_plot_comparison ::
  "env \<Rightarrow> rat list list \<Rightarrow> string \<Rightarrow> px_fn \<Rightarrow> pyval \<Rightarrow> string \<Rightarrow> template
     \<Rightarrow> ((figure \<times> figure) option \<times> string option) result" where
  "create_plot_comparison lib img px_name px_fn constructor trace_type template =
     (case get_plot_args lib img px_name px_fn of
        Inl e \<Rightarrow> Inl e
      | Inr None \<Rightarrow> Inr (None, Some (''No test data configured for '' @ px_name))
      | Inr (Some args) \<Rightarrow>
          if args = [] then Inr (None, Some (''Missing required arguments for '' @ px_name))
          else
            try_except
              (case construct_figures px_fn args template of
                 Inl e \<Rightarrow> Inl e
               | Inr figs \<Rightarrow> Inr (Some figs, None))
              (\<lambda>e. Inr (None, Some (str_of e))))"

section \<open>HTML generation\<close>

definition generate_template_code_display :: "string \<Rightarrow> string" where
  \<open>generate_template_code_display trace_type =
     (let constructor_name = get_constructor_name trace_type;
          code = ''template.data.'' @ trace_type @ '' = [\<newline>'';
          code = foldl (\<lambda>code color.
                   code @ ''    go.'' @ constructor_name @ ''(marker=dict(color="'' @ color
                     @ ''")),\<newline>'') code template_colors
      in code @ '']'')\<close>

definition html_head :: string where
  \<open>html_head = concat
    [''\<newline>'',
     ''<!DOCTYPE html>\<newline>'',
     ''<html>\<newline>'',
     ''<head>\<newline>'',
     ''    <title>Plotly Express Template Color Demonstration</title>\<newline>'',
     ''    <style>\<newline>'',
     ''        body {\<newline>'',
     ''            font-family: Arial, sans-serif;\<newline>'',
     ''            max-width: 1400px;\<newline>'',
     ''            margin: 0 auto;\<newline>'',
     ''            padding: 20px;\<newline>'',
     ''            background-color: #f5f5f5;\<newline>'',
     ''        }\<newline>'',
     ''        h1 {\<newline>'',
     ''            color: #333;\<newline>'',
     ''            text-align: center;\<newline>'',
     ''        }\<newline>'',
     ''        .plot-section {\<newline>'',
     ''            background-color: white;\<newline>'',
     ''            padding: 20px;\<newline>'',
     ''            margin-bottom: 20px;\<newline>'',
     ''            border-radius: 5px;\<newline>'',
     ''        }\<newline>'',
     ''        .plot-container {\<newline>'',
     ''            display: flex;\<newline>'',
     ''            gap: 20px;\<newline>'',
     ''            margin-top: 15px;\<newline>'',
     ''        }\<newline>'',
     ''        .plot-box {\<newline>'',
     ''            flex: 1;\<newline>'',
     ''            text-align: center;\<newline>'',
     ''        }\<newline>'',
     ''        .plot-box h3 {\<newline>'',
     ''            margin-top: 0;\<newline>'',
     ''            color: #666;\<newline>'',
     ''        }\<newline>'',
     ''        img {\<newline>'',
     ''            max-width: 100%;\<newline>'',
     ''            height: auto;\<newline>'',
     ''        }\<newline>'',
     ''        pre {\<newline>'',
     ''            margin-top: 15px;\<newline>'',
     ''            padding: 10px;\<newline>'',
     ''            background-color: #f9f9f9;\<newline>'',
     ''            border-radius: 4px;\<newline>'',
     ''            font-size: 12px;\<newline>'',
     ''            overflow-x: auto;\<newline>'',
     ''        }\<newline>'',
     ''        code {\<newline>'',
     ''            font-family: 'Courier New', monospace;\<newline>'',
     ''        }\<newline>'',
     ''    </style>\<newline>'',
     ''</head>\<newline>'',
     ''<body>\<newline>'',
     ''    <h1>Plotly Express Template Color Demonstration</h1>\<newline>'']\<close>

definition html_tail :: string where
  \<open>html_tail = concat
    [''\<newline>'',
     ''    </body>\<newline>'',
     ''    </html>\<newline>'',
     ''    '']\<close>

definition section_html :: "string \<Rightarrow> string \<Rightarrow> string \<Rightarrow> string \<Rightarrow> string" where
  \<open>section_html px_name img_base64_no img_base64_with template_code = concat
    [''\<newline>'',
     ''        <div class="plot-section">\<newline>'',
     ''            <h3>'',
     title (replace_char (CHR ''_'') (CHR '' '') px_name),
     ''</h3>\<newline>'',
     ''            <div class="plot-container">\<newline>'',
     ''                <div class="plot-box">\<newline>'',
     ''                    <h3>Without Template</h3>\<newline>'',
     ''                    <img src="data:image/png;base64,'',
     img_base64_no,
     ''" alt="'',
     px_name,
     '' without template">\<newline>'',
     ''                </div>\<newline>'',
     ''                <div class="plot-box">\<newline>'',
     ''                    <h3>With Template</h3>\<newline>'',
     ''                    <img src="data:image/png;base64,'',
     img_base64_with,
     ''" alt="'',
     px_name,
     '' with template">\<newline>'',
     ''                    <pre style="margin-top: 15px; padding: 10px; background-color: #f9f9f9; border-radius: 4px; font-size: 12px; overflow-x: auto; text-align: left;"><code>'',
     template_code,
     ''</code></pre>\<newline>'',
     ''                </div>\<newline>'',
     ''            </div>\<newline>'',
     ''        </div>\<newline>'',
     ''        '']\<close>

text \<open>
  \<^verbatim>\<open>write_image\<close> into a buffer, then \<^verbatim>\<open>b64encode(buffer.read()).decode('utf-8')\<close>.
\<close>

definition export_png :: "env \<Rightarrow> figure \<Rightarrow> string result" where
  "export_png lib fig =
     (case write_image lib fig ''png'' 700 500 2 of
        Inl e \<Rightarrow> Inl e
      | Inr img_buffer \<Rightarrow> Inr (b64encode img_buffer))"

text \<open>The two exports at the head of the \<^verbatim>\<open>try\<close> block of \<^verbatim>\<open>generate_html_content\<close>.\<close>

definition export_images :: "env \<Rightarrow> figure \<Rightarrow> figure \<Rightarrow> (string \<times> string) result" where
  "export_images lib fig_no fig_with =
     (case export_png lib fig_no of
        Inl e \<Rightarrow> Inl e
      | Inr img_base64_no \<Rightarrow>
          (case export_png lib fig_with of
             Inl e \<Rightarrow> Inl e
           | Inr img_base64_with \<Rightarrow> Inr (img_base64_no, img_base64_with)))"

type_synonym work = "string \<times> (figure \<times> figure) \<times> string"

definition generated_line :: "string \<Rightarrow> string" where
  "generated_line px_name = ''    Generated embedded images for '' @ px_name"

definition warning_line :: "string \<Rightarrow> error \<Rightarrow> string" where
  "warning_line px_name e =
     ''    Warning: Could not generate images for '' @ px_name @ '': '' @ str_of e"

text \<open>
  One iteration of the loop of \<^verbatim>\<open>generate_html_content\<close>, on the pair of the HTML text and
  the console (the lines printed so far).
\<close>

definition html_step :: "env \<Rightarrow> work \<Rightarrow> string \<times> string list \<Rightarrow> (string \<times> string list) result" where
  "html_step lib w st =
     (case (w, st) of ((px_name, (fig_no, fig_with), trace_type), (html, out)) \<Rightarrow>
        try_except
          (case export_images lib fig_no fig_with of
             Inl e \<Rightarrow> Inl e
           | Inr (img_base64_no, img_base64_with) \<Rightarrow>
               (let out = out @ [generated_line px_name];
                    template_code = generate_template_code_display trace_type
                in Inr (html @ section_html px_name img_base64_no img_base64_with template_code,
                        out)))
          (\<lambda>e. Inr (html, out @ [warning_line px_name e])))"

fun html_loop :: "env \<Rightarrow> work list \<Rightarrow> string \<times> string list \<Rightarrow> (string \<times> string list) result" where
  "html_loop lib [] st = Inr st"
| "html_loop lib (w # rest) st =
     (case html_step lib w st of
        Inl e \<Rightarrow> Inl e
      | Inr st' \<Rightarrow> html_loop lib rest st')"

definition generate_html_content ::
  "env \<Rightarrow> work list \<Rightarrow> string list \<Rightarrow> (string \<times> string list) result" where
  "generate_html_content lib works out =
     (case html_loop lib works (html_head, out) of
        Inl e \<Rightarrow> Inl e
      | Inr (html, out) \<Rightarrow> Inr (html @ html_tail, out))"

text \<open>
  The sections of the report: one for each item whose two images were exported, in the
  order of the list. \<open>html_of_sections\<close> is the text they make.
\<close>

record report_section =
  section_name :: string
  image_no :: string
  image_with :: string
  section_code :: string

fun report_sections :: "env \<Rightarrow> work list \<Rightarrow> report_section list" where
  "report_sections lib [] = []"
| "report_sections lib ((px_name, (fig_no, fig_with), trace_type) # rest) =
     (case export_images lib fig_no fig_with of
        Inl e \<Rightarrow> report_sections lib rest
      | Inr (img_base64_no, img_base64_with) \<Rightarrow>
          \<lparr>section_name = px_name, image_no = img_base64_no, image_with = img_base64_with,
           section_code = generate_template_code_display trace_type\<rparr>
          # report_sections lib rest)"

definition render_section :: "report_section \<Rightarrow> string" where
  "render_section s = section_html (section_name s) (image_no s) (image_with s) (section_code s)"

definition html_of_sections :: "report_section list \<Rightarrow> string" where
  "html_of_sections secs = html_head @ concat (map render_section secs) @ html_tail"

section \<open>Main function\<close>

text \<open>
  The state of the loop of \<^verbatim>\<open>main\<close>: the list of working comparisons, the console, and the
  number of arrays drawn from the random generator so far (\<open>rnd k\<close> is the \<open>k\<close>-th draw).
\<close>

record main_state =
  works_with_template :: "work list"
  console :: "string list"
  rand_calls :: nat

record run = main_state +
  html_content :: string

definition check_mark :: string where
  "check_mark = [CHR 0xE2, CHR 0x9C, CHR 0x93]"

definition works_line :: "string \<Rightarrow> string \<Rightarrow> string" where
  "works_line px_name trace_type =
     check_mark @ '' '' @ ljust 30 px_name @ '' - Works (uses template.data.'' @ trace_type @ '')''"

definition main_step ::
  "env \<Rightarrow> (nat \<Rightarrow> rat list list) \<Rightarrow> template \<Rightarrow> string \<times> px_fn \<times> pyval \<times> string
     \<Rightarrow> main_state \<Rightarrow> main_state result" where
  "main_step lib rnd template entry st =
     (case entry of (px_name, px_fn, constructor, trace_type) \<Rightarrow>
        (case can_use_discrete_colors lib px_name px_fn constructor trace_type of
           Inl e \<Rightarrow> Inl e
         | Inr (can_use, reason) \<Rightarrow>
             if can_use then
               (case create_plot_comparison lib (rnd (rand_calls st)) px_name px_fn constructor
                       trace_type template of
                  Inl e \<Rightarrow> Inl e
                | Inr (result, error) \<Rightarrow>
                    (case result of
                       Some figs \<Rightarrow>
                         Inr (st\<lparr>works_with_template :=
                                    works_with_template st @ [(px_name, figs, trace_type)],
                                  console := console st @ [works_line px_name trace_type],
                                  rand_calls := rand_calls st + 1\<rparr>)
                     | None \<Rightarrow> Inr (st\<lparr>rand_calls := rand_calls st + 1\<rparr>)))
             else Inr st))"

fun main_loop ::
  "env \<Rightarrow> (nat \<Rightarrow> rat list list) \<Rightarrow> template \<Rightarrow> (string \<times> px_fn \<times> pyval \<times> string) list
     \<Rightarrow> main_state \<Rightarrow> main_state result" where
  "main_loop lib rnd template [] st = Inr st"
| "main_loop lib rnd template (entry # rest) st =
     (case main_step lib rnd template entry st of
        Inl e \<Rightarrow> Inl e
      | Inr st' \<Rightarrow> main_loop lib rnd template rest st')"

definition banner :: string where
  "banner = replicate 80 (CHR ''='')"

definition main :: "env \<Rightarrow> (nat \<Rightarrow> rat list list) \<Rightarrow> run result" where
  "main lib rnd =
     (let out = [banner, ''Comprehensive Plotly Express Template Color Demonstration'', banner]
      in case create_comprehensive_template lib of
           Inl e \<Rightarrow> Inl e
         | Inr template \<Rightarrow>
             (let out = out @ [''\<newline>Analyzing all Plotly Express functions...'',
                                        replicate 80 (CHR ''-'')]
              in case main_loop lib rnd template (PX_FUNCTIONS lib)
                        \<lparr>works_with_template = [], console = out, rand_calls = 0\<rparr> of
                   Inl e \<Rightarrow> Inl e
                 | Inr st \<Rightarrow>
                     (let out = console st @ [''\<newline>'' @ banner, ''Creating HTML file...'']
                      in case generate_html_content lib (works_with_template st) out of
                           Inl e \<Rightarrow> Inl e
                         | Inr (html, out) \<Rightarrow>
                             (case write_file lib ''all_px_template_demo.html'' html of
                                Some e \<Rightarrow> Inl e
                              | None \<Rightarrow>
                                  Inr \<lparr>works_with_template = works_with_template st,
                                       console = out
                                         @ [''  '' @ check_mark @ '' Created all_px_template_demo.html'',
                                            ''\<newline>Generated ''
                                              @ str_of_nat (length (works_with_template st))
                                              @ '' working comparisons'',
                                            ''\<newline>'' @ banner,
                                            ''Complete! Open all_px_template_demo.html in a browser to see all comparisons.'',
                                            banner],
                                       rand_calls = rand_calls st,
                                       html_content = html\<rparr>))))"

text \<open>
  The line that the loop of \<^verbatim>\<open>generate_html_content\<close> prints for an item, and the lines that
  the loop of \<^verbatim>\<open>main\<close> prints for the items it keeps.
\<close>

definition html_line :: "env \<Rightarrow> work \<Rightarrow> string" where
  "html_line lib w =
     (case w of (px_name, (fig_no, fig_with), trace_type) \<Rightarrow>
        (case export_images lib fig_no fig_with of
           Inl e \<Rightarrow> warning_line px_name e
         | Inr imgs \<Rightarrow> generated_line px_name))"

definition works_lines :: "work list \<Rightarrow> string list" where
  "works_lines works = map (\<lambda>w. works_line (fst w) (snd (snd w))) works"

definition run_sections :: "env \<Rightarrow> run \<Rightarrow> report_section list" where
  "run_sections lib r = report_sections lib (works_with_template r)"

text \<open>
  \<open>built lib rnd tpl tbl w\<close>: the item \<open>w\<close> comes from an entry of the table that is not
  excluded and whose two figures were built, on some draw of the random generator. It is
  what the loop of \<open>main\<close> keeps true of every item it appends.
\<close>

definition built ::
  "env \<Rightarrow> (nat \<Rightarrow> rat list list) \<Rightarrow> template \<Rightarrow> (string \<times> px_fn \<times> pyval \<times> string) list
     \<Rightarrow> work \<Rightarrow> bool" where
  "built lib rnd tpl tbl w =
     (case w of (px_name, figs, tt) \<Rightarrow>
        px_name \<notin> no_discrete \<and>
        (\<exists>px_fn c k err. (px_name, px_fn, c, tt) \<in> set tbl
           \<and> create_plot_comparison lib (rnd k) px_name px_fn c tt tpl = Inr (Some figs, err)))"

section \<open>Concrete environments\<close>

text \<open>
  \<open>demo_env\<close>: no dataset or data frame call raises, every px function returns a figure
  named after the function, marked when a template was passed; every class accepts its
  arguments, every trace has every
  attribute, the export writes the first four bytes of a PNG file, the file is written.
  \<open>boom_env\<close> is the same, but every px function raises an exception with the text
  \<^verbatim>\<open>boom\<close>. \<open>no_random\<close> and \<open>half_random\<close> are two sequences of drawn arrays.
\<close>

definition demo_env :: env where
  "demo_env =
     \<lparr>px = (\<lambda>name kw. Inr (Figure (name @ (case map_of kw ''template'' of
                                             None \<Rightarrow> [] | Some t \<Rightarrow> ''+template'')))),
      library_error = (\<lambda>call. None),
      construct_error = (\<lambda>cls kw. None),
      has_attr = (\<lambda>t path. True),
      write_image = (\<lambda>fig fmt w h sc. Inr [0x89, 0x50, 0x4E, 0x47]),
      write_file = (\<lambda>name content. None)\<rparr>"

definition boom_env :: env where
  "boom_env = demo_env\<lparr>px := (\<lambda>name kw. Inl (Exception ''boom''))\<rparr>"

definition no_random :: "nat \<Rightarrow> rat list list" where
  "no_random k = []"

definition half_random :: "nat \<Rightarrow> rat list list" where
  "half_random k = [[1 / 2]]"

text \<open>
  Four more variants of \<open>demo_env\<close>: in \<open>nodata_env\<close> the loader of the tips dataset raises;
  in \<open>empty_env\<close> the export writes no byte; in \<open>picture_env\<close> the export of the plain
  scatter figure writes two bytes and every other export four; in \<open>nobar_env\<close> the class
  \<^verbatim>\<open>Bar\<close> rejects its arguments.
\<close>

definition nodata_env :: env where
  "nodata_env = demo_env
     \<lparr>library_error := (\<lambda>call. if call = ''px.data.tips''
                                then Some (Exception ''tips.csv.gz not found'') else None)\<rparr>"

definition empty_env :: env where
  "empty_env = demo_env\<lparr>write_image := (\<lambda>fig fmt w h sc. Inr [])\<rparr>"

definition picture_env :: env where
  "picture_env = demo_env
     \<lparr>write_image := (\<lambda>fig fmt w h sc.
         if fig = Figure ''scatter'' then Inr [0x89, 0x50] else Inr [0x89, 0x50, 0x4E, 0x47])\<rparr>"

definition nobar_env :: env where
  "nobar_env = demo_env
     \<lparr>construct_error := (\<lambda>cls kw. if cls = ''Bar''
                                   then Some (Exception ''unexpected keyword argument'')
                                   else None)\<rparr>"

text \<open>
  \<open>faulty_env\<close> is \<open>demo_env\<close> where \<^verbatim>\<open>px.bar\<close> raises and the export of the templated
  scatter figure raises. \<open>demo_works\<close> is the list of working comparisons of a run on
  \<open>demo_env\<close>.
\<close>

definition faulty_env :: env where
  "faulty_env = demo_env
     \<lparr>px := (\<lambda>name kw. if name = ''bar'' then Inl (Exception ''boom'') else px demo_env name kw),
      write_image := (\<lambda>fig fmt w h sc.
         if fig = Figure ''scatter+template'' then Inl (Exception ''no kaleido'')
         else write_image demo_env fig fmt w h sc)\<rparr>"

definition demo_works :: "work list" where
  "demo_works =
   [(''scatter'', (Figure ''scatter'', Figure ''scatter+template''), ''scatter''),
    (''line'', (Figure ''line'', Figure ''line+template''), ''scatter''),
    (''area'', (Figure ''area'', Figure ''area+template''), ''scatter''),
    (''bar'', (Figure ''bar'', Figure ''bar+template''), ''bar''),
    (''timeline'', (Figure ''timeline'', Figure ''timeline+template''), ''bar''),
    (''histogram'', (Figure ''histogram'', Figure ''histogram+template''), ''histogram''),
    (''ecdf'', (Figure ''ecdf'', Figure ''ecdf+template''), ''scatter''),
    (''violin'', (Figure ''violin'', Figure ''violin+template''), ''violin''),
    (''box'', (Figure ''box'', Figure ''box+template''), ''box''),
    (''strip'', (Figure ''strip'', Figure ''strip+template''), ''box''),
    (''scatter_3d'', (Figure ''scatter_3d'', Figure ''scatter_3d+template''), ''scatter3d''),
    (''line_3d'', (Figure ''line_3d'', Figure ''line_3d+template''), ''scatter3d''),
    (''scatter_ternary'', (Figure ''scatter_ternary'', Figure ''scatter_ternary+template''), ''scatterternary''),
    (''line_ternary'', (Figure ''line_ternary'', Figure ''line_ternary+template''), ''scatterternary''),
    (''scatter_polar'', (Figure ''scatter_polar'', Figure ''scatter_polar+template''), ''scatterpolar''),
    (''line_polar'', (Figure ''line_polar'', Figure ''line_polar+template''), ''scatterpolar''),
    (''bar_polar'', (Figure ''bar_polar'', Figure ''bar_polar+template''), ''barpolar''),
    (''scatter_matrix'', (Figure ''scatter_matrix'', Figure ''scatter_matrix+template''), ''splom''),
    (''density_contour'', (Figure ''density_contour'', Figure ''density_contour+template''), ''histogram2dcontour''),
    (''pie'', (Figure ''pie'', Figure ''pie+template''), ''pie''),
    (''sunburst'', (Figure ''sunburst'', Figure ''sunburst+template''), ''sunburst''),
    (''treemap'', (Figure ''treemap'', Figure ''treemap+template''), ''treemap''),
    (''icicle'', (Figure ''icicle'', Figure ''icicle+template''), ''icicle''),
    (''funnel'', (Figure ''funnel'', Figure ''funnel+template''), ''funnel''),
    (''funnel_area'', (Figure ''funnel_area'', Figure ''funnel_area+template''), ''funnelarea'')]"

section \<open>Basic facts\<close>

subsection \<open>Which functions return\<close>

lemma try_except_Inr [simp]: "try_except (Inr v) h = Inr v"
  by (simp add: try_except_def)

lemma try_except_Inl [simp]: "try_except (Inl e) h = h e"
  by (simp add: try_except_def)

lemma test_returns: "\<exists>b. test_trace_supports_marker_color lib c = Inr b"
  by (auto simp: test_trace_supports_marker_color_def try_except_def split: sum.splits)

lemma can_use_returns:
  "\<exists>b r. can_use_discrete_colors lib px_name px_fn c tt = Inr (b, r)"
  using test_returns [of lib c]
  by (auto simp: can_use_discrete_colors_def)

lemma can_use_True:
  "can_use_discrete_colors lib px_name px_fn c tt = Inr (True, r) \<Longrightarrow>
     px_name \<notin> no_discrete \<and> r = None \<and> test_trace_supports_marker_color lib c = Inr True"
  by (auto simp: can_use_discrete_colors_def split: if_splits sum.splits)

lemma can_use_False:
  "can_use_discrete_colors lib px_name px_fn c tt = Inr (False, r) \<Longrightarrow> \<exists>reason. r = Some reason"
  by (auto simp: can_use_discrete_colors_def split: if_splits sum.splits)

lemma get_plot_args_Inr:
  "data_error lib = None \<Longrightarrow> get_plot_args lib img px_name px_fn = Inr (args_map_get img px_name)"
  by (simp add: get_plot_args_def)

lemma get_plot_args_Inl:
  "data_error lib = Some e \<Longrightarrow> get_plot_args lib img px_name px_fn = Inl e"
  by (simp add: get_plot_args_def)

lemma get_plot_args_Inr_iff:
  "get_plot_args lib img px_name px_fn = Inr a
     \<longleftrightarrow> data_error lib = None \<and> a = args_map_get img px_name"
  by (auto simp: get_plot_args_def split: option.splits)

lemma cpc_Inl_iff:
  "create_plot_comparison lib img px_name px_fn c tt tpl = Inl e
     \<longleftrightarrow> get_plot_args lib img px_name px_fn = Inl e"
  by (auto simp: create_plot_comparison_def try_except_def split: option.splits sum.splits)

lemma cpc_returns:
  "get_plot_args lib img px_name px_fn = Inr a \<Longrightarrow>
     \<exists>res. create_plot_comparison lib img px_name px_fn c tt tpl = Inr res"
  by (auto simp: create_plot_comparison_def try_except_def split: option.splits sum.splits)

lemma cpc_shape:
  "create_plot_comparison lib img px_name px_fn c tt tpl = Inr (res, err) \<Longrightarrow>
     (res = None) = (err \<noteq> None)"
  by (auto simp: create_plot_comparison_def try_except_def split: option.splits sum.splits if_splits)

lemma main_step_returns:
  assumes "data_error lib = None"
  shows "\<exists>st'. main_step lib rnd tpl entry st = Inr st'"
proof -
  obtain px_name px_fn c tt where e: "entry = (px_name, px_fn, c, tt)"
    by (cases entry) auto
  obtain b r where cu: "can_use_discrete_colors lib px_name px_fn c tt = Inr (b, r)"
    using can_use_returns by blast
  obtain res err where cp:
    "create_plot_comparison lib (rnd (rand_calls st)) px_name px_fn c tt tpl = Inr (res, err)"
    using cpc_returns [OF get_plot_args_Inr [OF assms]] by (metis surj_pair)
  show ?thesis
    by (cases res) (simp_all add: main_step_def e cu cp)
qed

lemma main_loop_returns:
  assumes "data_error lib = None"
  shows "\<exists>st'. main_loop lib rnd tpl tbl st = Inr st'"
proof (induction tbl arbitrary: st)
  case Nil
  show ?case by simp
next
  case (Cons entry rest)
  obtain st1 where "main_step lib rnd tpl entry st = Inr st1"
    using main_step_returns [OF assms] by blast
  with Cons.IH [of st1] show ?case by simp
qed

lemma main_loop_Cons_Inr:
  "main_loop lib rnd tpl (entry # rest) st = Inr st' \<Longrightarrow>
     \<exists>st1. main_step lib rnd tpl entry st = Inr st1 \<and> main_loop lib rnd tpl rest st1 = Inr st'"
  by (cases "main_step lib rnd tpl entry st") simp_all

lemma html_step_returns: "\<exists>st'. html_step lib w st = Inr st'"
  by (auto simp: html_step_def try_except_def split: prod.splits sum.splits)

lemma html_loop_sections:
  "\<exists>out'. html_loop lib works (html, out)
     = Inr (html @ concat (map render_section (report_sections lib works)), out')"
proof (induction works arbitrary: html out)
  case Nil
  show ?case by simp
next
  case (Cons w rest)
  obtain px_name fig_no fig_with tt where w: "w = (px_name, (fig_no, fig_with), tt)"
    by (cases w) auto
  show ?case
  proof (cases "export_images lib fig_no fig_with")
    case (Inl e)
    then show ?thesis
      using Cons.IH [of html "out @ [warning_line px_name e]"]
      by (simp add: w html_step_def)
  next
    case (Inr imgs)
    obtain a b where imgs: "imgs = (a, b)" by (cases imgs) auto
    show ?thesis
      using Cons.IH [of "html @ section_html px_name a b (generate_template_code_display tt)"
                        "out @ [generated_line px_name]"]
      by (simp add: w html_step_def Inr imgs render_section_def)
  qed
qed

lemma generate_html_content_sections:
  "\<exists>out'. generate_html_content lib works out
     = Inr (html_of_sections (report_sections lib works), out')"
  using html_loop_sections [of lib works html_head out]
  by (auto simp: generate_html_content_def html_of_sections_def)

lemma report_sections_subseq:
  "subseq (map section_name (report_sections lib works)) (map fst works)"
proof (induction works)
  case Nil
  show ?case by simp
next
  case (Cons w rest)
  obtain px_name fig_no fig_with tt where w: "w = (px_name, (fig_no, fig_with), tt)"
    by (cases w) auto
  show ?case
    using Cons.IH by (auto simp: w split: sum.splits)
qed

subsection \<open>The tables\<close>

lemma none_marked_iff:
  "map_of (args_map img) px_name = Some None \<longleftrightarrow>
     px_name \<in> {''scatter_geo'', ''line_geo'', ''scatter_map'', ''line_map'', ''density_map'',
                 ''scatter_mapbox'', ''line_mapbox'', ''density_mapbox''}"
  by (simp add: args_map_def)

lemma args_map_get_img:
  "px_name \<noteq> ''imshow'' \<Longrightarrow> args_map_get img px_name = args_map_get img' px_name"
  by (simp add: args_map_get_def args_map_def)

lemma get_plot_args_img:
  "px_name \<noteq> ''imshow'' \<Longrightarrow> get_plot_args lib img px_name f = get_plot_args lib img' px_name f"
  using args_map_get_img [of px_name img img']
  by (simp add: get_plot_args_def split: option.splits)

lemma keys_args_map: "map fst (args_map img) = map fst (PX_FUNCTIONS lib)"
  by (simp add: args_map_def PX_FUNCTIONS_def)

lemma distinct_PX_FUNCTIONS: "distinct (map fst (PX_FUNCTIONS lib))"
  by (simp add: PX_FUNCTIONS_def)

lemma length_PX_FUNCTIONS: "length (PX_FUNCTIONS lib) = 40"
  by (simp add: PX_FUNCTIONS_def)

lemma imshow_no_discrete: "''imshow'' \<in> no_discrete"
  by (simp add: no_discrete_def)

subsection \<open>The loop of \<open>main\<close> and the run\<close>

lemma cpc_Some:
  "create_plot_comparison lib img px_name px_fn c tt tpl = Inr (Some figs, err) \<Longrightarrow>
     \<exists>args. get_plot_args lib img px_name px_fn = Inr (Some args) \<and> args \<noteq> []
            \<and> construct_figures px_fn args tpl = Inr figs"
  by (auto simp: create_plot_comparison_def try_except_def
           split: option.splits sum.splits if_splits)

lemma cpc_raise:
  "get_plot_args lib img px_name px_fn = Inr (Some args) \<Longrightarrow> args \<noteq> [] \<Longrightarrow>
   construct_figures px_fn args tpl = Inl e \<Longrightarrow>
     create_plot_comparison lib img px_name px_fn c tt tpl = Inr (None, Some (str_of e))"
  by (simp add: create_plot_comparison_def)

lemma cpc_None:
  "get_plot_args lib img px_name px_fn = Inr None \<Longrightarrow>
     create_plot_comparison lib img px_name px_fn c tt tpl
       = Inr (None, Some (''No test data configured for '' @ px_name))"
  by (simp add: create_plot_comparison_def)

lemma cpc_img:
  "px_name \<noteq> ''imshow'' \<Longrightarrow>
     create_plot_comparison lib img px_name px_fn c tt tpl
       = create_plot_comparison lib img' px_name px_fn c tt tpl"
  using get_plot_args_img [of px_name lib img px_fn img']
  by (simp add: create_plot_comparison_def)

text \<open>What one iteration of the loop of \<open>main\<close> can do.\<close>

lemma main_step_skip:
  "can_use_discrete_colors lib px_name px_fn c tt = Inr (False, r) \<Longrightarrow>
     main_step lib rnd tpl (px_name, px_fn, c, tt) st = Inr st"
  by (simp add: main_step_def)

lemma main_step_no_result:
  "can_use_discrete_colors lib px_name px_fn c tt = Inr (True, r) \<Longrightarrow>
   create_plot_comparison lib (rnd (rand_calls st)) px_name px_fn c tt tpl = Inr (None, err) \<Longrightarrow>
     main_step lib rnd tpl (px_name, px_fn, c, tt) st = Inr (st\<lparr>rand_calls := rand_calls st + 1\<rparr>)"
  by (simp add: main_step_def)

lemma main_step_cases:
  assumes "main_step lib rnd tpl (px_name, px_fn, c, tt) st = Inr st'"
  shows "(works_with_template st' = works_with_template st \<and> console st' = console st)
       \<or> (\<exists>figs err. px_name \<notin> no_discrete
             \<and> create_plot_comparison lib (rnd (rand_calls st)) px_name px_fn c tt tpl
                 = Inr (Some figs, err)
             \<and> works_with_template st' = works_with_template st @ [(px_name, figs, tt)]
             \<and> console st' = console st @ [works_line px_name tt])"
proof -
  obtain b r where cu: "can_use_discrete_colors lib px_name px_fn c tt = Inr (b, r)"
    using can_use_returns by blast
  show ?thesis
  proof (cases b)
    case False
    with assms cu show ?thesis by (simp add: main_step_def)
  next
    case True
    have nd: "px_name \<notin> no_discrete"
      using can_use_True [of lib px_name px_fn c tt r] cu True by simp
    from assms cu True obtain res err where cp:
      "create_plot_comparison lib (rnd (rand_calls st)) px_name px_fn c tt tpl = Inr (res, err)"
      by (cases "create_plot_comparison lib (rnd (rand_calls st)) px_name px_fn c tt tpl")
         (auto simp: main_step_def)
    show ?thesis
    proof (cases res)
      case None
      with assms cu cp True show ?thesis by (auto simp: main_step_def)
    next
      case (Some figs)
      with assms cu cp True nd show ?thesis by (auto simp: main_step_def)
    qed
  qed
qed

lemma built_mono: "built lib rnd tpl rest w \<Longrightarrow> built lib rnd tpl (entry # rest) w"
  by (auto simp: built_def)

lemma main_loop_added:
  "main_loop lib rnd tpl tbl st = Inr st' \<Longrightarrow>
     \<exists>added. works_with_template st' = works_with_template st @ added
       \<and> subseq (map fst added) (map fst tbl)
       \<and> (\<forall>w \<in> set added. built lib rnd tpl tbl w)"
proof (induction tbl arbitrary: st)
  case Nil
  then show ?case by simp
next
  case (Cons entry rest)
  obtain px_name px_fn c tt where e: "entry = (px_name, px_fn, c, tt)"
    by (cases entry) auto
  from main_loop_Cons_Inr [OF Cons.prems] obtain st1 where
    s1: "main_step lib rnd tpl entry st = Inr st1"
    and "main_loop lib rnd tpl rest st1 = Inr st'"
    by blast
  from Cons.IH [OF this(2)] obtain added where
    a: "works_with_template st' = works_with_template st1 @ added"
       "subseq (map fst added) (map fst rest)"
       "\<forall>w \<in> set added. built lib rnd tpl rest w"
    by blast
  from a(3) have a3: "\<forall>w \<in> set added. built lib rnd tpl (entry # rest) w"
    using built_mono by blast
  from a(2) have a2: "subseq (map fst added) (map fst (entry # rest))"
    by (simp add: list_emb_Cons)
  from main_step_cases [OF s1 [unfolded e]]
  consider (same) "works_with_template st1 = works_with_template st"
    | (new) figs err where "px_name \<notin> no_discrete"
        "create_plot_comparison lib (rnd (rand_calls st)) px_name px_fn c tt tpl = Inr (Some figs, err)"
        "works_with_template st1 = works_with_template st @ [(px_name, figs, tt)]"
    by blast
  then show ?case
  proof cases
    case same
    with a a2 a3 show ?thesis
      by (intro exI [of _ added]) simp
  next
    case new
    have "built lib rnd tpl (entry # rest) (px_name, figs, tt)"
      using new(1,2) by (auto simp: built_def e)
    with a a3 new(3) show ?thesis
      by (intro exI [of _ "(px_name, figs, tt) # added"]) (simp add: e)
  qed
qed

lemma main_Inr:
  assumes "main lib rnd = Inr r"
  shows "\<exists>tpl st0 st. create_comprehensive_template lib = Inr tpl
     \<and> works_with_template st0 = []
     \<and> main_loop lib rnd tpl (PX_FUNCTIONS lib) st0 = Inr st
     \<and> works_with_template r = works_with_template st
     \<and> html_content r = html_of_sections (run_sections lib r)"
proof -
  from assms obtain tpl where t: "create_comprehensive_template lib = Inr tpl"
    by (auto simp: main_def Let_def split: sum.splits)
  define st0 where "st0 = \<lparr>works_with_template = [],
     console = [banner, ''Comprehensive Plotly Express Template Color Demonstration'', banner]
       @ [''\<newline>Analyzing all Plotly Express functions...'', replicate 80 (CHR ''-'')],
     rand_calls = 0\<rparr>"
  from assms t obtain st where l: "main_loop lib rnd tpl (PX_FUNCTIONS lib) st0 = Inr st"
    by (cases "main_loop lib rnd tpl (PX_FUNCTIONS lib) st0")
       (auto simp: main_def Let_def st0_def)
  define out where "out = console st @ [''\<newline>'' @ banner, ''Creating HTML file...'']"
  obtain out' where g: "generate_html_content lib (works_with_template st) out
      = Inr (html_of_sections (report_sections lib (works_with_template st)), out')"
    using generate_html_content_sections by blast
  from assms t l g have "works_with_template r = works_with_template st
      \<and> html_content r = html_of_sections (report_sections lib (works_with_template st))"
    by (auto simp: main_def Let_def st0_def out_def split: option.splits)
  with t l show ?thesis
    by (intro exI [of _ tpl] exI [of _ st0] exI [of _ st]) (simp add: run_sections_def st0_def)
qed

lemma main_returns:
  assumes "create_comprehensive_template lib = Inr tpl"
    and "\<And>content. write_file lib ''all_px_template_demo.html'' content = None"
    and d: "data_error lib = None"
  shows "\<exists>r. main lib rnd = Inr r"
proof -
  define st0 where "st0 = \<lparr>works_with_template = [],
     console = [banner, ''Comprehensive Plotly Express Template Color Demonstration'', banner]
       @ [''\<newline>Analyzing all Plotly Express functions...'', replicate 80 (CHR ''-'')],
     rand_calls = 0\<rparr>"
  obtain st where l: "main_loop lib rnd tpl (PX_FUNCTIONS lib) st0 = Inr st"
    using main_loop_returns [OF d] by blast
  define out where "out = console st @ [''\<newline>'' @ banner, ''Creating HTML file...'']"
  obtain html out' where g: "generate_html_content lib (works_with_template st) out
      = Inr (html, out')"
    using generate_html_content_sections by blast
  show ?thesis
    using assms(1,2) l g by (simp add: main_def Let_def st0_def out_def)
qed

lemma subseq_set_mono: "subseq xs ys \<Longrightarrow> set xs \<subseteq> set ys"
  by (auto elim: list_emb_set)

lemma run_works:
  assumes "main lib rnd = Inr r"
  shows "\<exists>tpl. create_comprehensive_template lib = Inr tpl
     \<and> subseq (map fst (works_with_template r)) (map fst (PX_FUNCTIONS lib))
     \<and> (\<forall>w \<in> set (works_with_template r). built lib rnd tpl (PX_FUNCTIONS lib) w)"
proof -
  from main_Inr [OF assms] obtain tpl st0 st where
    m: "create_comprehensive_template lib = Inr tpl" "works_with_template st0 = []"
       "main_loop lib rnd tpl (PX_FUNCTIONS lib) st0 = Inr st"
       "works_with_template r = works_with_template st"
    by blast
  from main_loop_added [OF m(3)] m(2,4) have
    "subseq (map fst (works_with_template r)) (map fst (PX_FUNCTIONS lib))
     \<and> (\<forall>w \<in> set (works_with_template r). built lib rnd tpl (PX_FUNCTIONS lib) w)"
    by auto
  with m(1) show ?thesis by blast
qed

lemma run_sections_subseq:
  assumes "main lib rnd = Inr r"
  shows "subseq (map section_name (run_sections lib r)) (map fst (PX_FUNCTIONS lib))"
proof -
  have "subseq (map section_name (run_sections lib r)) (map fst (works_with_template r))"
    unfolding run_sections_def by (rule report_sections_subseq)
  moreover have "subseq (map fst (works_with_template r)) (map fst (PX_FUNCTIONS lib))"
    using run_works [OF assms] by blast
  ultimately show ?thesis by (rule subseq_order.trans)
qed

lemma section_is_work:
  "s \<in> set (report_sections lib works) \<Longrightarrow>
     \<exists>fig_no fig_with tt. (section_name s, (fig_no, fig_with), tt) \<in> set works
        \<and> export_images lib fig_no fig_with = Inr (image_no s, image_with s)
        \<and> section_code s = generate_template_code_display tt"
proof (induction works)
  case Nil
  then show ?case by simp
next
  case (Cons w rest)
  obtain px_name fig_no fig_with tt where w: "w = (px_name, (fig_no, fig_with), tt)"
    by (cases w) auto
  show ?case
  proof (cases "export_images lib fig_no fig_with")
    case (Inl e)
    with Cons show ?thesis by (auto simp: w)
  next
    case (Inr imgs)
    obtain a b where imgs: "imgs = (a, b)" by (cases imgs) auto
    from Cons.prems Inr imgs
    consider (head) "s = \<lparr>section_name = px_name, image_no = a, image_with = b,
                           section_code = generate_template_code_display tt\<rparr>"
      | (tail) "s \<in> set (report_sections lib rest)"
      by (auto simp: w)
    then show ?thesis
    proof cases
      case head
      then show ?thesis
        using Inr imgs by (intro exI [of _ fig_no] exI [of _ fig_with] exI [of _ tt]) (simp add: w)
    next
      case tail
      from Cons.IH [OF tail] show ?thesis by auto
    qed
  qed
qed

lemma first_error_None:
  "(\<forall>call \<in> set calls. raises call = None) \<Longrightarrow> first_error raises calls = None"
  by (induction calls) simp_all

lemma no_data_error: "(\<And>call. library_error lib call = None) \<Longrightarrow> data_error lib = None"
  by (simp add: data_error_def first_error_None)

lemma demo_data: "data_error demo_env = None"
  by (rule no_data_error) (simp add: demo_env_def)

lemma demo_template:
  "\<exists>tpl. create_comprehensive_template demo_env = Inr tpl"
  by (simp add: create_comprehensive_template_def trace_constructors_def template_colors_def
        go_new_def demo_env_def)

lemma demo_runs: "\<exists>r. main demo_env rnd = Inr r"
proof -
  obtain tpl where "create_comprehensive_template demo_env = Inr tpl"
    using demo_template by blast
  then show ?thesis
    by (rule main_returns [OF _ _ demo_data]) (simp_all add: demo_env_def)
qed

lemma subseq_distinct: "subseq xs ys \<Longrightarrow> distinct ys \<Longrightarrow> distinct xs"
proof (induction rule: list_emb.induct)
  case (list_emb_Cons2 x y xs ys)
  then show ?case using subseq_set_mono [of xs ys] by auto
qed auto

subsection \<open>The arguments of a plot-kind\<close>

lemma unknown_args:
  "px_name \<notin> set (map fst (args_map img)) \<Longrightarrow> args_map_get img px_name = Some []"
proof -
  assume "px_name \<notin> set (map fst (args_map img))"
  then have "map_of (args_map img) px_name = None"
    by (simp add: map_of_eq_None_iff)
  then show ?thesis by (simp add: args_map_get_def)
qed

lemma known_args_nonempty:
  "map_of (args_map img) px_name = Some (Some args) \<Longrightarrow> args \<noteq> []"
  by (auto simp: args_map_def split: if_splits)

lemma empty_args_iff:
  "args_map_get img px_name = Some [] \<longleftrightarrow> px_name \<notin> set (map fst (args_map img))"
proof
  assume e: "args_map_get img px_name = Some []"
  show "px_name \<notin> set (map fst (args_map img))"
  proof (cases "map_of (args_map img) px_name")
    case None
    then show ?thesis by (simp add: map_of_eq_None_iff)
  next
    case (Some entry)
    with e have "entry = Some []" by (simp add: args_map_get_def)
    with Some known_args_nonempty show ?thesis by blast
  qed
next
  assume "px_name \<notin> set (map fst (args_map img))"
  then show "args_map_get img px_name = Some []" by (rule unknown_args)
qed

lemma none_args_iff:
  "args_map_get img px_name = None \<longleftrightarrow> map_of (args_map img) px_name = Some None"
  by (auto simp: args_map_get_def split: option.splits)

lemma none_args_img: "args_map_get img px_name = None \<Longrightarrow> args_map_get img' px_name = None"
  by (simp add: none_args_iff none_marked_iff)

lemma cpc_empty:
  "get_plot_args lib img px_name px_fn = Inr (Some []) \<Longrightarrow>
     create_plot_comparison lib img px_name px_fn c tt tpl
       = Inr (None, Some (''Missing required arguments for '' @ px_name))"
  by (simp add: create_plot_comparison_def)

subsection \<open>The loops of the template construction\<close>

lemma build_trace_list_ok:
  "(\<forall>color \<in> set colors. construct_error lib cls (marker_color color) = None) \<Longrightarrow>
     build_trace_list lib cls colors acc
       = Inr (acc @ map (\<lambda>color. Trace cls (marker_color color)) colors)"
  by (induction colors arbitrary: acc) (simp_all add: go_new_def)

lemma fill_template_data_ok:
  "(\<forall>cls \<in> set (map snd tcs). \<forall>color \<in> set template_colors.
       construct_error lib cls (marker_color color) = None) \<Longrightarrow>
     fill_template_data lib tcs data
       = Inr (fold (\<lambda>(trace_type, cls).
                AList.update trace_type (map (\<lambda>color. Trace cls (marker_color color)) template_colors))
              tcs data)"
proof (induction tcs arbitrary: data)
  case Nil
  show ?case by simp
next
  case (Cons tc rest)
  obtain trace_type cls where tc: "tc = (trace_type, cls)" by (cases tc) auto
  from Cons.prems have
    "\<forall>color \<in> set template_colors. construct_error lib cls (marker_color color) = None"
    by (simp add: tc)
  then have "build_trace_list lib cls template_colors []
      = Inr (map (\<lambda>color. Trace cls (marker_color color)) template_colors)"
    using build_trace_list_ok [of template_colors lib cls "[]"] by simp
  moreover from Cons.prems have "\<forall>cls \<in> set (map snd rest). \<forall>color \<in> set template_colors.
       construct_error lib cls (marker_color color) = None"
    by simp
  ultimately show ?case using Cons.IH by (simp add: tc)
qed

lemma fold_update_fresh:
  "distinct (map fst tcs) \<Longrightarrow> set (map fst tcs) \<inter> set (map fst data) = {} \<Longrightarrow>
     fold (\<lambda>(k, v). AList.update k (f v)) tcs data = data @ map (\<lambda>(k, v). (k, f v)) tcs"
proof (induction tcs arbitrary: data)
  case Nil
  show ?case by simp
next
  case (Cons tc rest)
  obtain k v where tc: "tc = (k, v)" by (cases tc) auto
  from Cons.prems have fresh: "k \<notin> set (map fst data)" by (auto simp: tc)
  then have u: "AList.update k (f v) data = data @ [(k, f v)]"
    by (induction data) auto
  from Cons.prems have "distinct (map fst rest)"
    and "set (map fst rest) \<inter> set (map fst (data @ [(k, f v)])) = {}"
    by (auto simp: tc)
  from Cons.IH [OF this] show ?case by (simp add: tc u)
qed

lemma distinct_trace_constructors: "distinct (map fst trace_constructors)"
  by (simp add: trace_constructors_def)

subsection \<open>What a run depends on\<close>

lemma main_step_rnd_eq: "main_step lib rnd tpl entry st = main_step lib rnd' tpl entry st"
proof -
  obtain px_name px_fn c tt where e: "entry = (px_name, px_fn, c, tt)"
    by (cases entry) auto
  obtain b r where cu: "can_use_discrete_colors lib px_name px_fn c tt = Inr (b, r)"
    using can_use_returns by blast
  show ?thesis
  proof (cases b)
    case False
    with cu show ?thesis by (simp add: main_step_def e)
  next
    case True
    have "px_name \<notin> no_discrete"
      using can_use_True [of lib px_name px_fn c tt r] cu True by simp
    then have "px_name \<noteq> ''imshow''" using imshow_no_discrete by auto
    then have "create_plot_comparison lib (rnd (rand_calls st)) px_name px_fn c tt tpl
        = create_plot_comparison lib (rnd' (rand_calls st)) px_name px_fn c tt tpl"
      by (rule cpc_img)
    then show ?thesis by (simp add: main_step_def e cu)
  qed
qed

lemma main_loop_rnd_eq: "main_loop lib rnd tpl tbl st = main_loop lib rnd' tpl tbl st"
  by (induction tbl arbitrary: st)
     (simp_all add: main_step_rnd_eq [of _ rnd _ _ _ rnd'] cong: sum.case_cong)

lemma main_rnd_eq: "main lib rnd = main lib rnd'"
  by (simp add: main_def main_loop_rnd_eq [of lib rnd _ _ _ rnd'] cong: sum.case_cong)

text \<open>The field \<open>px\<close> of the environment is read by the table only.\<close>

lemma build_trace_list_px:
  "build_trace_list (lib\<lparr>px := p\<rparr>) cls colors acc = build_trace_list lib cls colors acc"
  by (induction colors arbitrary: acc) (simp_all add: go_new_def cong: sum.case_cong)

lemma fill_template_data_px:
  "fill_template_data (lib\<lparr>px := p\<rparr>) tcs data = fill_template_data lib tcs data"
  by (induction tcs arbitrary: data) (auto simp: build_trace_list_px cong: sum.case_cong)

lemma test_px:
  "test_trace_supports_marker_color (lib\<lparr>px := p\<rparr>) c = test_trace_supports_marker_color lib c"
  by (simp add: test_trace_supports_marker_color_def go_new_def call_constructor_def
        has_marker_color_def cong: sum.case_cong pyval.case_cong if_cong)

lemma can_use_px:
  "can_use_discrete_colors (lib\<lparr>px := p\<rparr>) px_name px_fn c tt
     = can_use_discrete_colors lib px_name px_fn c tt"
  by (simp add: can_use_discrete_colors_def test_px)

lemma cpc_px:
  "create_plot_comparison (lib\<lparr>px := p\<rparr>) img px_name px_fn c tt tpl
     = create_plot_comparison lib img px_name px_fn c tt tpl"
  by (simp add: create_plot_comparison_def get_plot_args_def data_error_def)

lemma main_step_px:
  "main_step (lib\<lparr>px := p\<rparr>) rnd tpl entry st = main_step lib rnd tpl entry st"
  by (cases entry) (simp add: main_step_def can_use_px cpc_px cong: sum.case_cong if_cong)

lemma main_loop_px:
  "main_loop (lib\<lparr>px := p\<rparr>) rnd tpl tbl st = main_loop lib rnd tpl tbl st"
  by (induction tbl arbitrary: st) (simp_all add: main_step_px cong: sum.case_cong)

lemma html_loop_px: "html_loop (lib\<lparr>px := p\<rparr>) works st = html_loop lib works st"
  by (induction works arbitrary: st)
     (simp_all add: html_step_def export_images_def export_png_def cong: sum.case_cong)

lemma main_loop_append:
  "main_loop lib rnd tpl (xs @ ys) st =
     (case main_loop lib rnd tpl xs st of
        Inl e \<Rightarrow> Inl e
      | Inr st' \<Rightarrow> main_loop lib rnd tpl ys st')"
  by (induction xs arbitrary: st) (simp_all split: sum.splits)

lemma main_step_excluded:
  "px_name \<in> no_discrete \<Longrightarrow> main_step lib rnd tpl (px_name, px_fn, c, tt) st = Inr st"
  by (simp add: main_step_def can_use_discrete_colors_def)

lemma PX_FUNCTIONS_imshow:
  "PX_FUNCTIONS (lib\<lparr>px := (px lib)(''imshow'' := f)\<rparr>)
     = butlast (PX_FUNCTIONS lib) @ [(''imshow'', f, PType ''Image'', ''image'')]"
  by (simp add: PX_FUNCTIONS_def)

lemma PX_FUNCTIONS_last:
  "PX_FUNCTIONS lib
     = butlast (PX_FUNCTIONS lib) @ [(''imshow'', px lib ''imshow'', PType ''Image'', ''image'')]"
  by (simp add: PX_FUNCTIONS_def)

lemma main_loop_imshow:
  "main_loop lib rnd tpl (PX_FUNCTIONS (lib\<lparr>px := (px lib)(''imshow'' := f)\<rparr>)) st
     = main_loop lib rnd tpl (PX_FUNCTIONS lib) st"
proof -
  have "main_loop lib rnd tpl (butlast (PX_FUNCTIONS lib) @ [(''imshow'', g, PType ''Image'', ''image'')]) st
      = main_loop lib rnd tpl (butlast (PX_FUNCTIONS lib)) st" for g
    by (simp add: main_loop_append main_step_excluded imshow_no_discrete split: sum.splits)
  from this [of f] this [of "px lib ''imshow''"] show ?thesis
    using PX_FUNCTIONS_imshow [of lib f] PX_FUNCTIONS_last [of lib] by simp
qed

lemma main_imshow:
  "main (lib\<lparr>px := (px lib)(''imshow'' := f)\<rparr>) rnd = main lib rnd"
  by (simp add: main_def create_comprehensive_template_def fill_template_data_px main_loop_px
        main_loop_imshow generate_html_content_def html_loop_px cong: sum.case_cong)

subsection \<open>Images, sections, and what a run is sure to contain\<close>

lemma b64encode_Nil_iff: "b64encode bytes = [] \<longleftrightarrow> bytes = []"
  by (induction bytes rule: b64encode.induct) (simp_all add: Let_def)

lemma export_png_Inr:
  "export_png lib fig = Inr img \<Longrightarrow>
     \<exists>bytes. write_image lib fig ''png'' 700 500 2 = Inr bytes \<and> img = b64encode bytes"
  by (auto simp: export_png_def split: sum.splits)

lemma export_images_Inr:
  "export_images lib fig_no fig_with = Inr (a, b) \<Longrightarrow>
     export_png lib fig_no = Inr a \<and> export_png lib fig_with = Inr b"
  by (auto simp: export_images_def split: sum.splits)

lemma construct_figures_Inr:
  "construct_figures px_fn args tpl = Inr (fig_no, fig_with) \<Longrightarrow>
     px_fn args = Inr fig_no
     \<and> px_fn (AList.update ''template'' (PTemplate tpl) args) = Inr fig_with"
  by (auto simp: construct_figures_def Let_def split: sum.splits)

lemma section_html_images:
  \<open>\<exists>pre mid post. section_html px_name a b code =
     pre @ ''<h3>Without Template</h3>\<newline>                    <img src="data:image/png;base64,'' @ a
       @ mid @ ''<h3>With Template</h3>\<newline>                    <img src="data:image/png;base64,'' @ b
       @ post\<close>
proof -
  have \<open>section_html px_name a b code =
     (''\<newline>        <div class="plot-section">\<newline>            <h3>''
        @ title (replace_char (CHR ''_'') (CHR '' '') px_name)
        @ ''</h3>\<newline>            <div class="plot-container">\<newline>                <div class="plot-box">\<newline>                    '')
     @ ''<h3>Without Template</h3>\<newline>                    <img src="data:image/png;base64,'' @ a
     @ (''" alt="'' @ px_name @ '' without template">\<newline>                </div>\<newline>                <div class="plot-box">\<newline>                    '')
     @ ''<h3>With Template</h3>\<newline>                    <img src="data:image/png;base64,'' @ b
     @ (''" alt="'' @ px_name @ '' with template">\<newline>                    <pre style="margin-top: 15px; padding: 10px; background-color: #f9f9f9; border-radius: 4px; font-size: 12px; overflow-x: auto; text-align: left;"><code>''
        @ code @ ''</code></pre>\<newline>                </div>\<newline>            </div>\<newline>        </div>\<newline>        '')\<close>
    by (simp add: section_html_def)
  then show ?thesis by blast
qed

lemma section_in_html:
  "s \<in> set secs \<Longrightarrow> \<exists>pre post. html_of_sections secs = pre @ render_section s @ post"
proof -
  assume "s \<in> set secs"
  then obtain xs ys where "secs = xs @ s # ys" by (auto dest: split_list)
  then have "html_of_sections secs
     = (html_head @ concat (map render_section xs)) @ render_section s
       @ (concat (map render_section ys) @ html_tail)"
    by (simp add: html_of_sections_def)
  then show ?thesis by blast
qed


lemma main_loop_complete:
  assumes "(px_name, px_fn, c, tt) \<in> set tbl"
    and "can_use_discrete_colors lib px_name px_fn c tt = Inr (True, None)"
    and "\<And>img. create_plot_comparison lib img px_name px_fn c tt tpl = Inr (Some figs, None)"
    and "main_loop lib rnd tpl tbl st = Inr st'"
  shows "(px_name, figs, tt) \<in> set (works_with_template st')"
  using assms(1,4)
proof (induction tbl arbitrary: st)
  case Nil
  then show ?case by simp
next
  case (Cons entry rest)
  from main_loop_Cons_Inr [OF Cons.prems(2)] obtain st1 where
    s1: "main_step lib rnd tpl entry st = Inr st1"
    and l: "main_loop lib rnd tpl rest st1 = Inr st'"
    by blast
  show ?case
  proof (cases "entry = (px_name, px_fn, c, tt)")
    case True
    with s1 assms(2,3) have "works_with_template st1 = works_with_template st @ [(px_name, figs, tt)]"
      by (auto simp: main_step_def)
    moreover from main_loop_added [OF l] obtain added where
      "works_with_template st' = works_with_template st1 @ added" by blast
    ultimately show ?thesis by simp
  next
    case False
    with Cons.prems(1) have "(px_name, px_fn, c, tt) \<in> set rest" by simp
    from Cons.IH [OF this l] show ?thesis .
  qed
qed

lemma report_sections_complete:
  "(px_name, (fig_no, fig_with), tt) \<in> set works \<Longrightarrow>
   export_images lib fig_no fig_with = Inr (a, b) \<Longrightarrow>
     \<lparr>section_name = px_name, image_no = a, image_with = b,
      section_code = generate_template_code_display tt\<rparr> \<in> set (report_sections lib works)"
proof (induction works)
  case Nil
  then show ?case by simp
next
  case (Cons w rest)
  obtain n f1 f2 t where w: "w = (n, (f1, f2), t)" by (cases w) auto
  show ?case
  proof (cases "w = (px_name, (fig_no, fig_with), tt)")
    case True
    with Cons.prems(2) w show ?thesis by simp
  next
    case False
    with Cons.prems have "(px_name, (fig_no, fig_with), tt) \<in> set rest" by simp
    from Cons.IH [OF this Cons.prems(2)] show ?thesis
      by (cases "export_images lib f1 f2") (auto simp: w)
  qed
qed

lemma run_complete:
  assumes "main lib rnd = Inr r"
    and "(px_name, px_fn, c, tt) \<in> set (PX_FUNCTIONS lib)"
    and "can_use_discrete_colors lib px_name px_fn c tt = Inr (True, None)"
    and "\<And>img tpl. create_plot_comparison lib img px_name px_fn c tt tpl = Inr (Some figs, None)"
  shows "(px_name, figs, tt) \<in> set (works_with_template r)"
proof -
  from main_Inr [OF assms(1)] obtain tpl st0 st where
    m: "main_loop lib rnd tpl (PX_FUNCTIONS lib) st0 = Inr st"
       "works_with_template r = works_with_template st"
    by blast
  from main_loop_complete [OF assms(2,3) assms(4) m(1)] m(2) show ?thesis by simp
qed

lemma demo_scatter_works:
  assumes "main demo_env rnd = Inr r"
  shows "(''scatter'', (Figure ''scatter'', Figure ''scatter+template''), ''scatter'')
           \<in> set (works_with_template r)"
proof (rule run_complete [OF assms])
  show "(''scatter'', px demo_env ''scatter'', PType ''Scatter'', ''scatter'')
          \<in> set (PX_FUNCTIONS demo_env)"
    by (simp add: PX_FUNCTIONS_def)
  show "can_use_discrete_colors demo_env ''scatter'' (px demo_env ''scatter'') (PType ''Scatter'')
          ''scatter'' = Inr (True, None)"
    by (simp add: can_use_discrete_colors_def no_discrete_def
          test_trace_supports_marker_color_def is_type_def call_constructor_def go_new_def
          has_marker_color_def demo_env_def)
  show "create_plot_comparison demo_env img ''scatter'' (px demo_env ''scatter'') (PType ''Scatter'')
          ''scatter'' tpl = Inr (Some (Figure ''scatter'', Figure ''scatter+template''), None)"
    for img tpl
    by (simp add: create_plot_comparison_def get_plot_args_def data_error_def plot_data_calls_def
          args_map_get_def args_map_def
          construct_figures_def demo_env_def)
qed

lemma demo_export:
  "export_images demo_env fig_no fig_with = Inr (''iVBORw=='', ''iVBORw=='')"
  by (simp add: export_images_def export_png_def demo_env_def b64char_def b64_alphabet_def)

subsection \<open>The console of a run\<close>

lemma demo_loop_works:
  "main_loop demo_env rnd tpl (PX_FUNCTIONS demo_env) st = Inr st' \<Longrightarrow>
     works_with_template st' = works_with_template st @ demo_works"
  by (clarsimp simp: PX_FUNCTIONS_def main_step_def can_use_discrete_colors_def no_discrete_def
        test_trace_supports_marker_color_def is_type_def call_constructor_def go_new_def
        has_marker_color_def create_plot_comparison_def get_plot_args_def data_error_def plot_data_calls_def
          args_map_get_def args_map_def
        construct_figures_def demo_env_def demo_works_def)

lemma html_loop_console:
  "\<exists>html'. html_loop lib works (html, out) = Inr (html', out @ map (html_line lib) works)"
proof (induction works arbitrary: html out)
  case Nil
  show ?case by simp
next
  case (Cons w rest)
  obtain px_name fig_no fig_with tt where w: "w = (px_name, (fig_no, fig_with), tt)"
    by (cases w) auto
  show ?case
  proof (cases "export_images lib fig_no fig_with")
    case (Inl e)
    then show ?thesis
      using Cons.IH [of html "out @ [warning_line px_name e]"]
      by (simp add: w html_step_def html_line_def)
  next
    case (Inr imgs)
    obtain a b where imgs: "imgs = (a, b)" by (cases imgs) auto
    show ?thesis
      using Cons.IH [of "html @ section_html px_name a b (generate_template_code_display tt)"
                        "out @ [generated_line px_name]"]
      by (simp add: w html_step_def Inr imgs html_line_def)
  qed
qed

lemma main_loop_console:
  "main_loop lib rnd tpl tbl st = Inr st' \<Longrightarrow>
     \<exists>added. works_with_template st' = works_with_template st @ added
       \<and> console st' = console st @ works_lines added"
proof (induction tbl arbitrary: st)
  case Nil
  then show ?case by (simp add: works_lines_def)
next
  case (Cons entry rest)
  obtain px_name px_fn c tt where e: "entry = (px_name, px_fn, c, tt)"
    by (cases entry) auto
  from main_loop_Cons_Inr [OF Cons.prems] obtain st1 where
    s1: "main_step lib rnd tpl entry st = Inr st1"
    and "main_loop lib rnd tpl rest st1 = Inr st'"
    by blast
  from Cons.IH [OF this(2)] obtain added where
    a: "works_with_template st' = works_with_template st1 @ added"
       "console st' = console st1 @ works_lines added"
    by blast
  from main_step_cases [OF s1 [unfolded e]]
  consider (same) "works_with_template st1 = works_with_template st" "console st1 = console st"
    | (new) figs where
        "works_with_template st1 = works_with_template st @ [(px_name, figs, tt)]"
        "console st1 = console st @ [works_line px_name tt]"
    by blast
  then show ?case
  proof cases
    case same
    with a show ?thesis by (intro exI [of _ added]) simp
  next
    case new
    with a show ?thesis
      by (intro exI [of _ "(px_name, figs, tt) # added"]) (simp add: works_lines_def)
  qed
qed

lemma main_console:
  assumes "main lib rnd = Inr r"
  shows "console r =
     [banner, ''Comprehensive Plotly Express Template Color Demonstration'', banner,
      ''\<newline>Analyzing all Plotly Express functions...'', replicate 80 (CHR ''-'')]
     @ works_lines (works_with_template r)
     @ [''\<newline>'' @ banner, ''Creating HTML file...'']
     @ map (html_line lib) (works_with_template r)
     @ [''  '' @ check_mark @ '' Created all_px_template_demo.html'',
        ''\<newline>Generated '' @ str_of_nat (length (works_with_template r))
          @ '' working comparisons'',
        ''\<newline>'' @ banner,
        ''Complete! Open all_px_template_demo.html in a browser to see all comparisons.'',
        banner]"
proof -
  from assms obtain tpl where t: "create_comprehensive_template lib = Inr tpl"
    by (auto simp: main_def Let_def split: sum.splits)
  define st0 where "st0 = \<lparr>works_with_template = [],
     console = [banner, ''Comprehensive Plotly Express Template Color Demonstration'', banner]
       @ [''\<newline>Analyzing all Plotly Express functions...'', replicate 80 (CHR ''-'')],
     rand_calls = 0\<rparr>"
  from assms t obtain st where l: "main_loop lib rnd tpl (PX_FUNCTIONS lib) st0 = Inr st"
    by (cases "main_loop lib rnd tpl (PX_FUNCTIONS lib) st0")
       (auto simp: main_def Let_def st0_def)
  from main_loop_console [OF l] have c: "console st = console st0 @ works_lines (works_with_template st)"
    by (auto simp: st0_def)
  define out where "out = console st @ [''\<newline>'' @ banner, ''Creating HTML file...'']"
  obtain html out' where g: "generate_html_content lib (works_with_template st) out = Inr (html, out')"
    and o: "out' = out @ map (html_line lib) (works_with_template st)"
    using html_loop_console [of lib "works_with_template st" html_head out]
    by (auto simp: generate_html_content_def)
  from assms t l g have "works_with_template r = works_with_template st
      \<and> console r = out'
     @ [''  '' @ check_mark @ '' Created all_px_template_demo.html'',
        ''\<newline>Generated '' @ str_of_nat (length (works_with_template st))
          @ '' working comparisons'',
        ''\<newline>'' @ banner,
        ''Complete! Open all_px_template_demo.html in a browser to see all comparisons.'',
        banner]"
    by (auto simp: main_def Let_def st0_def out_def split: option.splits)
  with c o show ?thesis by (simp add: out_def st0_def)
qed

subsection \<open>Items that fail\<close>

lemma main_loop_skips_failed:
  "can_use_discrete_colors lib px_name px_fn c tt = Inr (True, reason) \<Longrightarrow>
   create_plot_comparison lib (rnd (rand_calls st)) px_name px_fn c tt tpl = Inr (None, err) \<Longrightarrow>
     main_loop lib rnd tpl ((px_name, px_fn, c, tt) # rest) st
       = main_loop lib rnd tpl rest (st\<lparr>rand_calls := rand_calls st + 1\<rparr>)"
  by (simp add: main_step_no_result)

lemma html_loop_skips_failed:
  "export_images lib fig_no fig_with = Inl e \<Longrightarrow>
     html_loop lib ((px_name, (fig_no, fig_with), tt) # works) (html, out)
       = html_loop lib works (html, out @ [warning_line px_name e])"
  by (simp add: html_step_def)

lemma html_loop_returns: "\<exists>st'. html_loop lib works st = Inr st'"
  using html_loop_sections [of lib works "fst st" "snd st"] by auto

lemma run_distinct_works:
  assumes "main lib rnd = Inr r"
  shows "distinct (map fst (works_with_template r))"
proof -
  from run_works [OF assms]
  have "subseq (map fst (works_with_template r)) (map fst (PX_FUNCTIONS lib))" by blast
  then show ?thesis using distinct_PX_FUNCTIONS by (rule subseq_distinct)
qed

lemma section_name_in_works:
  "n \<in> set (map section_name (report_sections lib works)) \<Longrightarrow> n \<in> set (map fst works)"
  using subseq_set_mono [OF report_sections_subseq [of lib works]] by blast

lemma run_omits_failed_construct:
  assumes "main lib rnd = Inr r"
    and "create_comprehensive_template lib = Inr tpl"
    and "(px_name, px_fn, c, tt) \<in> set (PX_FUNCTIONS lib)"
    and "\<forall>img args. get_plot_args lib img px_name px_fn = Inr (Some args)
           \<longrightarrow> isl (construct_figures px_fn args tpl)"
  shows "px_name \<notin> set (map fst (works_with_template r))"
proof
  assume "px_name \<in> set (map fst (works_with_template r))"
  then obtain figs t' where w: "(px_name, figs, t') \<in> set (works_with_template r)"
    by auto
  from run_works [OF assms(1)] assms(2) w
  have "built lib rnd tpl (PX_FUNCTIONS lib) (px_name, figs, t')" by auto
  then obtain px_fn' c' k err where
    e: "(px_name, px_fn', c', t') \<in> set (PX_FUNCTIONS lib)"
    and cp: "create_plot_comparison lib (rnd k) px_name px_fn' c' t' tpl = Inr (Some figs, err)"
    by (auto simp: built_def)
  from distinct_PX_FUNCTIONS e assms(3) have "(px_fn', c', t') = (px_fn, c, tt)"
    by (rule eq_key_imp_eq_value)
  with cp have "create_plot_comparison lib (rnd k) px_name px_fn c tt tpl = Inr (Some figs, err)"
    by simp
  from cpc_Some [OF this] obtain args where
    g: "get_plot_args lib (rnd k) px_name px_fn = Inr (Some args)"
    and f: "construct_figures px_fn args tpl = Inr figs"
    by blast
  from assms(4) g have "isl (construct_figures px_fn args tpl)" by blast
  with f show False by simp
qed

lemma run_logs_failed_export:
  assumes "main lib rnd = Inr r"
    and "(px_name, (fig_no, fig_with), tt) \<in> set (works_with_template r)"
    and "export_images lib fig_no fig_with = Inl e"
  shows "warning_line px_name e \<in> set (console r)
     \<and> px_name \<notin> set (map section_name (run_sections lib r))"
proof
  have "html_line lib (px_name, (fig_no, fig_with), tt) = warning_line px_name e"
    by (simp add: html_line_def assms(3))
  with assms(2) have "warning_line px_name e \<in> set (map (html_line lib) (works_with_template r))"
    by force
  then show "warning_line px_name e \<in> set (console r)"
    by (simp add: main_console [OF assms(1)])
next
  show "px_name \<notin> set (map section_name (run_sections lib r))"
  proof
    assume "px_name \<in> set (map section_name (run_sections lib r))"
    then obtain s where s: "s \<in> set (report_sections lib (works_with_template r))"
        "section_name s = px_name"
      by (auto simp: run_sections_def)
    from section_is_work [OF s(1)] s(2) obtain g1 g2 t' where
      w: "(px_name, (g1, g2), t') \<in> set (works_with_template r)"
      and x: "export_images lib g1 g2 = Inr (image_no s, image_with s)"
      by auto
    from run_distinct_works [OF assms(1)] w assms(2) have "((g1, g2), t') = ((fig_no, fig_with), tt)"
      by (rule eq_key_imp_eq_value)
    with x assms(3) show False by simp
  qed
qed

lemma unavailable_img:
  assumes "get_plot_args lib img px_name px_fn = Inr None"
  shows "get_plot_args lib img' px_name px_fn' = Inr None"
proof -
  from assms have "data_error lib = None" "args_map_get img px_name = None"
    by (auto simp: get_plot_args_Inr_iff)
  then show ?thesis
    using none_args_img [of img px_name img'] by (simp add: get_plot_args_Inr)
qed

lemma run_omits_unavailable:
  assumes "get_plot_args lib img px_name px_fn = Inr None"
    and "main lib rnd = Inr r"
  shows "px_name \<notin> set (map fst (works_with_template r))"
proof
  assume "px_name \<in> set (map fst (works_with_template r))"
  then obtain figs t' where w: "(px_name, figs, t') \<in> set (works_with_template r)"
    by auto
  from run_works [OF assms(2)] w obtain tpl where
    "built lib rnd tpl (PX_FUNCTIONS lib) (px_name, figs, t')" by blast
  then obtain px_fn' c' k err where
    cp: "create_plot_comparison lib (rnd k) px_name px_fn' c' t' tpl = Inr (Some figs, err)"
    by (auto simp: built_def)
  have "get_plot_args lib (rnd k) px_name px_fn' = Inr None"
    by (rule unavailable_img [OF assms(1)])
  from cpc_None [OF this] cp show False by simp
qed

lemma run_omits_none:
  assumes "args_map_get img px_name = None"
    and "main lib rnd = Inr r"
  shows "px_name \<notin> set (map fst (works_with_template r))"
proof
  assume "px_name \<in> set (map fst (works_with_template r))"
  then obtain figs t' where w: "(px_name, figs, t') \<in> set (works_with_template r)"
    by auto
  from run_works [OF assms(2)] w obtain tpl where
    "built lib rnd tpl (PX_FUNCTIONS lib) (px_name, figs, t')" by blast
  then obtain px_fn' c' k err where
    cp: "create_plot_comparison lib (rnd k) px_name px_fn' c' t' tpl = Inr (Some figs, err)"
    by (auto simp: built_def)
  from cpc_Some [OF cp] obtain args where
    "get_plot_args lib (rnd k) px_name px_fn' = Inr (Some args)" by blast
  then have "args_map_get (rnd k) px_name = Some args"
    by (simp add: get_plot_args_Inr_iff)
  with none_args_img [OF assms(1), of "rnd k"] show False by simp
qed


lemma boom_data: "data_error boom_env = None"
  by (rule no_data_error) (simp add: demo_env_def boom_env_def)

lemma boom_template: "\<exists>tpl. create_comprehensive_template boom_env = Inr tpl"
  by (simp add: create_comprehensive_template_def trace_constructors_def template_colors_def
        go_new_def demo_env_def boom_env_def)

lemma boom_runs: "\<exists>r. main boom_env rnd = Inr r"
proof -
  obtain tpl where "create_comprehensive_template boom_env = Inr tpl"
    using boom_template by blast
  then show ?thesis
    by (rule main_returns [OF _ _ boom_data]) (simp_all add: demo_env_def boom_env_def)
qed

lemma boom_cpc:
  "\<exists>err. create_plot_comparison boom_env img px_name (px boom_env n) c tt tpl = Inr (None, err)"
  unfolding create_plot_comparison_def get_plot_args_Inr [OF boom_data]
  by (auto simp: construct_figures_def boom_env_def split: option.splits)

lemma boom_works:
  assumes "main boom_env rnd = Inr r"
  shows "works_with_template r = []"
proof (rule ccontr)
  assume "works_with_template r \<noteq> []"
  then obtain w where w: "w \<in> set (works_with_template r)"
    by (cases "works_with_template r") auto
  obtain px_name figs tt where p: "w = (px_name, figs, tt)" by (cases w) auto
  from run_works [OF assms] w p obtain tpl where
    "built boom_env rnd tpl (PX_FUNCTIONS boom_env) (px_name, figs, tt)" by blast
  then obtain px_fn c k err where
    e: "(px_name, px_fn, c, tt) \<in> set (PX_FUNCTIONS boom_env)"
    and cp: "create_plot_comparison boom_env (rnd k) px_name px_fn c tt tpl = Inr (Some figs, err)"
    by (auto simp: built_def)
  from e have "px_fn = px boom_env px_name"
    by (auto simp: PX_FUNCTIONS_def)
  with cp boom_cpc [of "rnd k" px_name px_name c tt tpl] show False by auto
qed

lemma boom_console:
  assumes "main boom_env rnd = Inr r"
  shows "console r =
     [banner, ''Comprehensive Plotly Express Template Color Demonstration'', banner,
      ''\<newline>Analyzing all Plotly Express functions...'', replicate 80 (CHR ''-''),
      ''\<newline>'' @ banner, ''Creating HTML file...'',
      ''  '' @ check_mark @ '' Created all_px_template_demo.html'',
      ''\<newline>Generated 0 working comparisons'',
      ''\<newline>'' @ banner,
      ''Complete! Open all_px_template_demo.html in a browser to see all comparisons.'',
      banner]"
  by (simp add: main_console [OF assms] boom_works [OF assms] works_lines_def
        str_of_nat.simps digit_def)

lemma boom_scatter:
  "create_plot_comparison boom_env img ''scatter'' (px boom_env ''scatter'') c tt tpl
     = Inr (None, Some ''boom'')"
  unfolding create_plot_comparison_def get_plot_args_Inr [OF boom_data]
  by (simp add: args_map_get_def args_map_def construct_figures_def try_except_def boom_env_def)

lemma boom_can_use:
  "can_use_discrete_colors boom_env ''scatter'' (px boom_env ''scatter'') (PType ''Scatter'')
     ''scatter'' = Inr (True, None)"
  by (simp add: can_use_discrete_colors_def no_discrete_def
        test_trace_supports_marker_color_def is_type_def call_constructor_def go_new_def
        has_marker_color_def demo_env_def boom_env_def)

subsection \<open>The run on \<open>demo_env\<close>\<close>

lemma demo_works_run:
  assumes "main demo_env rnd = Inr r"
  shows "works_with_template r = demo_works"
proof -
  from main_Inr [OF assms] obtain tpl st0 st where
    m: "works_with_template st0 = []"
       "main_loop demo_env rnd tpl (PX_FUNCTIONS demo_env) st0 = Inr st"
       "works_with_template r = works_with_template st"
    by blast
  from demo_loop_works [OF m(2)] m(1,3) show ?thesis by simp
qed

lemma demo_html_line: "html_line demo_env w = generated_line (fst w)"
  by (cases w) (auto simp: html_line_def demo_export)

lemma demo_console:
  assumes "main demo_env rnd = Inr r"
  shows "console r =
     [banner, ''Comprehensive Plotly Express Template Color Demonstration'', banner,
      ''\<newline>Analyzing all Plotly Express functions...'', replicate 80 (CHR ''-'')]
     @ works_lines demo_works
     @ [''\<newline>'' @ banner, ''Creating HTML file...'']
     @ map (\<lambda>w. generated_line (fst w)) demo_works
     @ [''  '' @ check_mark @ '' Created all_px_template_demo.html'',
        ''\<newline>Generated 25 working comparisons'',
        ''\<newline>'' @ banner,
        ''Complete! Open all_px_template_demo.html in a browser to see all comparisons.'',
        banner]"
proof -
  have "length demo_works = 25" by (simp add: demo_works_def)
  then have "str_of_nat (length demo_works) = ''25''"
    by (simp add: str_of_nat.simps digit_def)
  then show ?thesis
    by (simp add: main_console [OF assms] demo_works_run [OF assms] demo_html_line)
qed

lemma demo_console_scan:
  "\<not> list_ex (sublist ''scatter_geo'')
     ([banner, ''Comprehensive Plotly Express Template Color Demonstration'', banner,
      ''\<newline>Analyzing all Plotly Express functions...'', replicate 80 (CHR ''-'')]
     @ works_lines demo_works
     @ [''\<newline>'' @ banner, ''Creating HTML file...'']
     @ map (\<lambda>w. generated_line (fst w)) demo_works
     @ [''  '' @ check_mark @ '' Created all_px_template_demo.html'',
        ''\<newline>Generated 25 working comparisons'',
        ''\<newline>'' @ banner,
        ''Complete! Open all_px_template_demo.html in a browser to see all comparisons.'',
        banner])"
  by (simp add: banner_def check_mark_def sublist_Cons_right eval_nat_numeral demo_works_def
        works_lines_def works_line_def generated_line_def ljust_def)

subsection \<open>The run on \<open>faulty_env\<close>\<close>

lemma faulty_data: "data_error faulty_env = None"
  by (rule no_data_error) (simp add: demo_env_def faulty_env_def)

lemma faulty_template: "\<exists>tpl. create_comprehensive_template faulty_env = Inr tpl"
  by (simp add: create_comprehensive_template_def trace_constructors_def template_colors_def
        go_new_def demo_env_def faulty_env_def)

lemma faulty_runs: "\<exists>r. main faulty_env rnd = Inr r"
proof -
  obtain tpl where "create_comprehensive_template faulty_env = Inr tpl"
    using faulty_template by blast
  then show ?thesis
    by (rule main_returns [OF _ _ faulty_data]) (simp_all add: demo_env_def faulty_env_def)
qed

lemma faulty_scatter_works:
  assumes "main faulty_env rnd = Inr r"
  shows "(''scatter'', (Figure ''scatter'', Figure ''scatter+template''), ''scatter'')
           \<in> set (works_with_template r)"
proof (rule run_complete [OF assms])
  show "(''scatter'', px faulty_env ''scatter'', PType ''Scatter'', ''scatter'')
          \<in> set (PX_FUNCTIONS faulty_env)"
    by (simp add: PX_FUNCTIONS_def)
  show "can_use_discrete_colors faulty_env ''scatter'' (px faulty_env ''scatter'')
          (PType ''Scatter'') ''scatter'' = Inr (True, None)"
    by (simp add: can_use_discrete_colors_def no_discrete_def
          test_trace_supports_marker_color_def is_type_def call_constructor_def go_new_def
          has_marker_color_def demo_env_def faulty_env_def)
  show "create_plot_comparison faulty_env img ''scatter'' (px faulty_env ''scatter'') (PType ''Scatter'')
          ''scatter'' tpl = Inr (Some (Figure ''scatter'', Figure ''scatter+template''), None)"
    for img tpl
    by (simp add: create_plot_comparison_def get_plot_args_def data_error_def plot_data_calls_def
          args_map_get_def args_map_def
          construct_figures_def demo_env_def faulty_env_def)
qed

lemma faulty_export:
  "export_images faulty_env (Figure ''scatter'') (Figure ''scatter+template'')
     = Inl (Exception ''no kaleido'')"
  by (simp add: export_images_def export_png_def demo_env_def faulty_env_def)

lemma faulty_bar_entry:
  "(''bar'', px faulty_env ''bar'', PType ''Bar'', ''bar'') \<in> set (PX_FUNCTIONS faulty_env)"
  by (simp add: PX_FUNCTIONS_def)

lemma faulty_bar_raises:
  "construct_figures (px faulty_env ''bar'') args tpl = Inl (Exception ''boom'')"
  by (simp add: construct_figures_def faulty_env_def)

lemma bar_args:
  "get_plot_args faulty_env img ''bar'' px_fn
     = Inr (Some [(''data_frame'', PFrame tips), (''x'', PStr ''day''),
                  (''y'', PStr ''total_bill''), (''color'', PStr ''sex'')])"
  by (simp add: get_plot_args_Inr [OF faulty_data] args_map_get_def args_map_def)

lemma faulty_bar_can_use:
  "can_use_discrete_colors faulty_env ''bar'' (px faulty_env ''bar'') (PType ''Bar'') ''bar''
     = Inr (True, None)"
  by (simp add: can_use_discrete_colors_def no_discrete_def
        test_trace_supports_marker_color_def is_type_def call_constructor_def go_new_def
        has_marker_color_def demo_env_def faulty_env_def)

subsection \<open>Plot-kinds without example arguments\<close>

lemma main_step_unavailable:
  assumes "get_plot_args lib img px_name px_fn = Inr None"
  shows "\<exists>k. main_step lib rnd tpl (px_name, px_fn, c, tt) st = Inr (st\<lparr>rand_calls := k\<rparr>)"
proof -
  obtain b reason where cu: "can_use_discrete_colors lib px_name px_fn c tt = Inr (b, reason)"
    using can_use_returns by blast
  have "get_plot_args lib (rnd (rand_calls st)) px_name px_fn = Inr None"
    by (rule unavailable_img [OF assms])
  note cp = cpc_None [OF this, of c tt tpl]
  show ?thesis
  proof (cases b)
    case True
    with cu cp have "main_step lib rnd tpl (px_name, px_fn, c, tt) st
        = Inr (st\<lparr>rand_calls := rand_calls st + 1\<rparr>)"
      by (simp add: main_step_def)
    then show ?thesis by blast
  next
    case False
    with cu have "main_step lib rnd tpl (px_name, px_fn, c, tt) st
        = Inr (st\<lparr>rand_calls := rand_calls st\<rparr>)"
      by (simp add: main_step_def)
    then show ?thesis by blast
  qed
qed

lemma reason_unavailable:
  assumes "get_plot_args lib img px_name px_fn = Inr None"
  shows "\<exists>reason. can_use_discrete_colors lib px_name px_fn c tt = Inr (False, Some reason)
     \<or> (can_use_discrete_colors lib px_name px_fn c tt = Inr (True, None)
        \<and> create_plot_comparison lib img px_name px_fn c tt tpl = Inr (None, Some reason))"
proof -
  obtain b reason where cu: "can_use_discrete_colors lib px_name px_fn c tt = Inr (b, reason)"
    using can_use_returns by blast
  show ?thesis
  proof (cases b)
    case True
    with cu can_use_True [of lib px_name px_fn c tt reason]
    have "can_use_discrete_colors lib px_name px_fn c tt = Inr (True, None)" by simp
    with cpc_None [OF assms, of c tt tpl] show ?thesis by blast
  next
    case False
    with cu can_use_False [of lib px_name px_fn c tt reason] show ?thesis by auto
  qed
qed

lemma demo_geo_can_use:
  "can_use_discrete_colors demo_env ''scatter_geo'' (px demo_env ''scatter_geo'')
     (PType ''Scattergeo'') ''scattergeo'' = Inr (True, None)"
  by (simp add: can_use_discrete_colors_def no_discrete_def
        test_trace_supports_marker_color_def is_type_def call_constructor_def go_new_def
        has_marker_color_def demo_env_def)

text \<open>Where a section of the report of a run comes from.\<close>

lemma section_origin:
  assumes "main lib rnd = Inr r"
    and "s \<in> set (run_sections lib r)"
  shows "\<exists>fig_no fig_with tt tpl px_fn c k args.
       (section_name s, (fig_no, fig_with), tt) \<in> set (works_with_template r)
     \<and> create_comprehensive_template lib = Inr tpl
     \<and> (section_name s, px_fn, c, tt) \<in> set (PX_FUNCTIONS lib)
     \<and> get_plot_args lib (rnd k) (section_name s) px_fn = Inr (Some args)
     \<and> px_fn args = Inr fig_no
     \<and> px_fn (AList.update ''template'' (PTemplate tpl) args) = Inr fig_with
     \<and> export_png lib fig_no = Inr (image_no s)
     \<and> export_png lib fig_with = Inr (image_with s)"
proof -
  from assms(2) have "s \<in> set (report_sections lib (works_with_template r))"
    by (simp add: run_sections_def)
  from section_is_work [OF this] obtain fig_no fig_with tt where
    w: "(section_name s, (fig_no, fig_with), tt) \<in> set (works_with_template r)"
    and x: "export_images lib fig_no fig_with = Inr (image_no s, image_with s)"
    by blast
  from run_works [OF assms(1)] w obtain tpl where
    t: "create_comprehensive_template lib = Inr tpl"
    and "built lib rnd tpl (PX_FUNCTIONS lib) (section_name s, (fig_no, fig_with), tt)"
    by blast
  then obtain px_fn c k err where
    e: "(section_name s, px_fn, c, tt) \<in> set (PX_FUNCTIONS lib)"
    and cp: "create_plot_comparison lib (rnd k) (section_name s) px_fn c tt tpl
               = Inr (Some (fig_no, fig_with), err)"
    by (auto simp: built_def)
  from cpc_Some [OF cp] obtain args where
    g: "get_plot_args lib (rnd k) (section_name s) px_fn = Inr (Some args)"
    and f: "construct_figures px_fn args tpl = Inr (fig_no, fig_with)"
    by blast
  from w t e g construct_figures_Inr [OF f] export_images_Inr [OF x]
  show ?thesis by blast
qed

text \<open>The comparison of \<^verbatim>\<open>scatter\<close> is in every run whose library treats it as \<open>demo_env\<close> does.\<close>

lemma scatter_works:
  assumes "main lib rnd = Inr r"
    and "data_error lib = None"
    and "px lib ''scatter'' = px demo_env ''scatter''"
    and "construct_error lib ''Scatter'' (marker_color ''red'') = None"
    and "has_marker_color lib (Trace ''Scatter'' (marker_color ''red''))"
  shows "(''scatter'', (Figure ''scatter'', Figure ''scatter+template''), ''scatter'')
           \<in> set (works_with_template r)"
proof (rule run_complete [OF assms(1)])
  show "(''scatter'', px lib ''scatter'', PType ''Scatter'', ''scatter'')
          \<in> set (PX_FUNCTIONS lib)"
    by (simp add: PX_FUNCTIONS_def)
  show "can_use_discrete_colors lib ''scatter'' (px lib ''scatter'') (PType ''Scatter'')
          ''scatter'' = Inr (True, None)"
    using assms(4,5)
    by (simp add: can_use_discrete_colors_def no_discrete_def
          test_trace_supports_marker_color_def is_type_def call_constructor_def go_new_def)
  show "create_plot_comparison lib img ''scatter'' (px lib ''scatter'') (PType ''Scatter'')
          ''scatter'' tpl = Inr (Some (Figure ''scatter'', Figure ''scatter+template''), None)"
    for img tpl
    unfolding assms(3) create_plot_comparison_def get_plot_args_Inr [OF assms(2)]
    by (simp add: args_map_get_def args_map_def construct_figures_def demo_env_def)
qed

text \<open>The runs on \<open>empty_env\<close>, \<open>picture_env\<close> and \<open>nodata_env\<close>; the test on \<open>nobar_env\<close>.\<close>

lemma empty_data: "data_error empty_env = None"
  by (rule no_data_error) (simp add: demo_env_def empty_env_def)

lemma empty_runs: "\<exists>r. main empty_env rnd = Inr r"
proof -
  have "\<exists>tpl. create_comprehensive_template empty_env = Inr tpl"
    by (simp add: create_comprehensive_template_def trace_constructors_def template_colors_def
          go_new_def demo_env_def empty_env_def)
  then obtain tpl where "create_comprehensive_template empty_env = Inr tpl" by blast
  then show ?thesis
    by (rule main_returns [OF _ _ empty_data]) (simp_all add: demo_env_def empty_env_def)
qed

lemma empty_scatter_works:
  assumes "main empty_env rnd = Inr r"
  shows "(''scatter'', (Figure ''scatter'', Figure ''scatter+template''), ''scatter'')
           \<in> set (works_with_template r)"
  by (rule scatter_works [OF assms empty_data])
     (simp_all add: demo_env_def empty_env_def has_marker_color_def)

lemma empty_export: "export_images empty_env fig_no fig_with = Inr ([], [])"
  by (simp add: export_images_def export_png_def demo_env_def empty_env_def)

lemma picture_data: "data_error picture_env = None"
  by (rule no_data_error) (simp add: demo_env_def picture_env_def)

lemma picture_runs: "\<exists>r. main picture_env rnd = Inr r"
proof -
  have "\<exists>tpl. create_comprehensive_template picture_env = Inr tpl"
    by (simp add: create_comprehensive_template_def trace_constructors_def template_colors_def
          go_new_def demo_env_def picture_env_def)
  then obtain tpl where "create_comprehensive_template picture_env = Inr tpl" by blast
  then show ?thesis
    by (rule main_returns [OF _ _ picture_data]) (simp_all add: demo_env_def picture_env_def)
qed

lemma picture_scatter_works:
  assumes "main picture_env rnd = Inr r"
  shows "(''scatter'', (Figure ''scatter'', Figure ''scatter+template''), ''scatter'')
           \<in> set (works_with_template r)"
  by (rule scatter_works [OF assms picture_data])
     (simp_all add: demo_env_def picture_env_def has_marker_color_def)

lemma picture_export:
  "export_images picture_env (Figure ''scatter'') (Figure ''scatter+template'')
     = Inr (''iVA='', ''iVBORw=='')"
  by (simp add: export_images_def export_png_def demo_env_def picture_env_def b64char_def
        b64_alphabet_def)

lemma nodata_error: "data_error nodata_env = Some (Exception ''tips.csv.gz not found'')"
  by (simp add: data_error_def plot_data_calls_def demo_env_def nodata_env_def)

lemma test_timeline:
  "test_trace_supports_marker_color lib (PStr ''timeline'')
     = Inr (construct_error lib ''Bar'' (marker_color ''red'') = None
            \<and> has_marker_color lib (Trace ''Bar'' (marker_color ''red'')))"
  by (cases "construct_error lib ''Bar'' (marker_color ''red'')")
     (simp_all add: test_trace_supports_marker_color_def go_new_def)

lemma test_class:
  "test_trace_supports_marker_color lib (PType cls)
     = Inr (construct_error lib cls (marker_color ''red'') = None
            \<and> has_marker_color lib (Trace cls (marker_color ''red'')))"
  by (cases "construct_error lib cls (marker_color ''red'')")
     (simp_all add: test_trace_supports_marker_color_def is_type_def call_constructor_def
        go_new_def)

lemma test_other:
  "\<not> is_type constructor \<Longrightarrow> constructor \<noteq> PStr ''timeline'' \<Longrightarrow>
     test_trace_supports_marker_color lib constructor = Inr False"
  by (simp add: test_trace_supports_marker_color_def)

lemma nodata_step:
  "main_step nodata_env rnd tpl
     (''scatter'', px nodata_env ''scatter'', PType ''Scatter'', ''scatter'') st
     = Inl (Exception ''tips.csv.gz not found'')"
proof -
  have c: "can_use_discrete_colors nodata_env ''scatter'' (px nodata_env ''scatter'')
             (PType ''Scatter'') ''scatter'' = Inr (True, None)"
    by (simp add: can_use_discrete_colors_def no_discrete_def
          test_trace_supports_marker_color_def is_type_def call_constructor_def go_new_def
          has_marker_color_def demo_env_def nodata_env_def)
  have p: "create_plot_comparison nodata_env img ''scatter'' (px nodata_env ''scatter'')
             (PType ''Scatter'') ''scatter'' tpl = Inl (Exception ''tips.csv.gz not found'')"
    for img
    by (simp add: cpc_Inl_iff get_plot_args_Inl [OF nodata_error])
  show ?thesis unfolding main_step_def by (simp add: c p)
qed

lemma nodata_main: "main nodata_env rnd = Inl (Exception ''tips.csv.gz not found'')"
proof -
  have "\<exists>tpl. create_comprehensive_template nodata_env = Inr tpl"
    by (simp add: create_comprehensive_template_def trace_constructors_def template_colors_def
          go_new_def demo_env_def nodata_env_def)
  then obtain tpl where t: "create_comprehensive_template nodata_env = Inr tpl" by blast
  have px: "PX_FUNCTIONS nodata_env
      = (''scatter'', px nodata_env ''scatter'', PType ''Scatter'', ''scatter'')
          # tl (PX_FUNCTIONS nodata_env)"
    by (simp add: PX_FUNCTIONS_def)
  have l: "main_loop nodata_env rnd tpl (PX_FUNCTIONS nodata_env) st
      = Inl (Exception ''tips.csv.gz not found'')" for st
    by (subst px) (simp add: nodata_step)
  show ?thesis unfolding main_def by (simp add: t l Let_def)
qed

section \<open>The claims\<close>

text \<open>
  C1, as the code has it. An exception that the px function raises while the two figures
  of a plot-kind are built is caught inside \<open>create_plot_comparison\<close>, which returns no
  figures and the text of the exception as the reason; the loop of \<open>main\<close> goes on with the
  next entry, its list and its console unchanged, and the plot-kind has no section in the
  report. An exception
  raised while an image of an item is exported is caught in the loop of
  \<open>generate_html_content\<close>, which prints the warning
  \<^verbatim>\<open>Warning: Could not generate images for <name>: <text>\<close> and goes on with the next item;
  the warning is in the console of the run and the item has no section.
\<close>

theorem exceptions_caught_per_item:
  "(get_plot_args lib img px_name px_fn = Inr (Some args) \<and> args \<noteq> []
        \<and> construct_figures px_fn args tpl = Inl e
      \<longrightarrow> create_plot_comparison lib img px_name px_fn c tt tpl = Inr (None, Some (str_of e)))
   \<and> (can_use_discrete_colors lib px_name px_fn c tt = Inr (True, None)
        \<and> create_plot_comparison lib (rnd (rand_calls st)) px_name px_fn c tt tpl = Inr (None, err)
      \<longrightarrow> main_loop lib rnd tpl ((px_name, px_fn, c, tt) # rest) st
            = main_loop lib rnd tpl rest (st\<lparr>rand_calls := rand_calls st + 1\<rparr>))
   \<and> (main lib rnd = Inr r \<and> create_comprehensive_template lib = Inr tpl
        \<and> (px_name, px_fn, c, tt) \<in> set (PX_FUNCTIONS lib)
        \<and> (\<forall>img args. get_plot_args lib img px_name px_fn = Inr (Some args)
               \<longrightarrow> isl (construct_figures px_fn args tpl))
      \<longrightarrow> px_name \<notin> set (map fst (works_with_template r))
          \<and> px_name \<notin> set (map section_name (run_sections lib r)))
   \<and> (export_images lib fig_no fig_with = Inl e'
      \<longrightarrow> html_loop lib ((name, (fig_no, fig_with), tt') # works) (html, out)
            = html_loop lib works
                (html, out @ [''    Warning: Could not generate images for '' @ name @ '': ''
                                @ str_of e']))
   \<and> (main lib rnd = Inr r \<and> (name, (fig_no, fig_with), tt') \<in> set (works_with_template r)
        \<and> export_images lib fig_no fig_with = Inl e'
      \<longrightarrow> (''    Warning: Could not generate images for '' @ name @ '': '' @ str_of e')
             \<in> set (console r)
          \<and> name \<notin> set (map section_name (run_sections lib r)))"
proof -
  have 2: "get_plot_args lib img px_name px_fn = Inr (Some args) \<and> args \<noteq> []
        \<and> construct_figures px_fn args tpl = Inl e
      \<longrightarrow> create_plot_comparison lib img px_name px_fn c tt tpl = Inr (None, Some (str_of e))"
    using cpc_raise by blast
  have 3: "can_use_discrete_colors lib px_name px_fn c tt = Inr (True, None)
        \<and> create_plot_comparison lib (rnd (rand_calls st)) px_name px_fn c tt tpl = Inr (None, err)
      \<longrightarrow> main_loop lib rnd tpl ((px_name, px_fn, c, tt) # rest) st
            = main_loop lib rnd tpl rest (st\<lparr>rand_calls := rand_calls st + 1\<rparr>)"
    using main_loop_skips_failed by blast
  have 4: "main lib rnd = Inr r \<and> create_comprehensive_template lib = Inr tpl
        \<and> (px_name, px_fn, c, tt) \<in> set (PX_FUNCTIONS lib)
        \<and> (\<forall>img args. get_plot_args lib img px_name px_fn = Inr (Some args)
               \<longrightarrow> isl (construct_figures px_fn args tpl))
      \<longrightarrow> px_name \<notin> set (map fst (works_with_template r))
          \<and> px_name \<notin> set (map section_name (run_sections lib r))"
  proof (intro impI, elim conjE)
    assume a: "main lib rnd = Inr r" "create_comprehensive_template lib = Inr tpl"
      "(px_name, px_fn, c, tt) \<in> set (PX_FUNCTIONS lib)"
      "\<forall>img args. get_plot_args lib img px_name px_fn = Inr (Some args)
               \<longrightarrow> isl (construct_figures px_fn args tpl)"
    have w: "px_name \<notin> set (map fst (works_with_template r))"
      by (rule run_omits_failed_construct [OF a])
    then have "px_name \<notin> set (map section_name (run_sections lib r))"
      unfolding run_sections_def using section_name_in_works by blast
    with w show "px_name \<notin> set (map fst (works_with_template r))
          \<and> px_name \<notin> set (map section_name (run_sections lib r))" by simp
  qed
  have 6: "export_images lib fig_no fig_with = Inl e'
      \<longrightarrow> html_loop lib ((name, (fig_no, fig_with), tt') # works) (html, out)
            = html_loop lib works
                (html, out @ [''    Warning: Could not generate images for '' @ name @ '': ''
                                @ str_of e'])"
    using html_loop_skips_failed [of lib fig_no fig_with e' name tt' works html out]
    by (simp add: warning_line_def)
  have 7: "main lib rnd = Inr r \<and> (name, (fig_no, fig_with), tt') \<in> set (works_with_template r)
        \<and> export_images lib fig_no fig_with = Inl e'
      \<longrightarrow> (''    Warning: Could not generate images for '' @ name @ '': '' @ str_of e')
             \<in> set (console r)
          \<and> name \<notin> set (map section_name (run_sections lib r))"
    using run_logs_failed_export [of lib rnd r name fig_no fig_with tt' e']
    by (simp add: warning_line_def)
  from 2 3 4 6 7 show ?thesis by blast
qed

theorem exceptions_caught_per_item_witness:
  "get_plot_args faulty_env (no_random 0) ''bar'' (px faulty_env ''bar'')
     = Inr (Some [(''data_frame'', PFrame tips), (''x'', PStr ''day''),
                  (''y'', PStr ''total_bill''), (''color'', PStr ''sex'')])
   \<and> construct_figures (px faulty_env ''bar'')
        [(''data_frame'', PFrame tips), (''x'', PStr ''day''), (''y'', PStr ''total_bill''),
         (''color'', PStr ''sex'')] (projr (create_comprehensive_template faulty_env))
       = Inl (Exception ''boom'')
   \<and> create_plot_comparison faulty_env (no_random 0) ''bar'' (px faulty_env ''bar'') (PType ''Bar'') ''bar''
        (projr (create_comprehensive_template faulty_env)) = Inr (None, Some ''boom'')
   \<and> can_use_discrete_colors faulty_env ''bar'' (px faulty_env ''bar'') (PType ''Bar'') ''bar''
       = Inr (True, None)
   \<and> main_loop faulty_env no_random (projr (create_comprehensive_template faulty_env))
        [(''bar'', px faulty_env ''bar'', PType ''Bar'', ''bar'')]
        \<lparr>works_with_template = [], console = [], rand_calls = 0\<rparr>
       = Inr \<lparr>works_with_template = [], console = [], rand_calls = 1\<rparr>
   \<and> \<not> isl (main faulty_env no_random)
   \<and> ''bar'' \<notin> set (map section_name (run_sections faulty_env (projr (main faulty_env no_random))))
   \<and> export_images faulty_env (Figure ''scatter'') (Figure ''scatter+template'')
       = Inl (Exception ''no kaleido'')
   \<and> (''scatter'', (Figure ''scatter'', Figure ''scatter+template''), ''scatter'')
       \<in> set (works_with_template (projr (main faulty_env no_random)))
   \<and> ''    Warning: Could not generate images for scatter: no kaleido''
       \<in> set (console (projr (main faulty_env no_random)))
   \<and> ''scatter'' \<notin> set (map section_name (run_sections faulty_env (projr (main faulty_env no_random))))"
proof -
  obtain r where r: "main faulty_env no_random = Inr r"
    using faulty_runs by blast
  obtain tpl where t: "create_comprehensive_template faulty_env = Inr tpl"
    using faulty_template by blast
  define st where "st = \<lparr>works_with_template = [], console = [], rand_calls = 0\<rparr>"
  note w = faulty_scatter_works [OF r]
  have a: "\<forall>img args. get_plot_args faulty_env img ''bar'' (px faulty_env ''bar'') = Inr (Some args)
               \<longrightarrow> isl (construct_figures (px faulty_env ''bar'') args tpl)"
    by (simp add: faulty_bar_raises)
  from exceptions_caught_per_item
         [where lib = faulty_env and rnd = no_random and r = r and tpl = tpl
            and img = "no_random 0" and px_name = "''bar''" and px_fn = "px faulty_env ''bar''"
            and c = "PType ''Bar''" and tt = "''bar''"
            and args = "[(''data_frame'', PFrame tips), (''x'', PStr ''day''),
                         (''y'', PStr ''total_bill''), (''color'', PStr ''sex'')]"
            and e = "Exception ''boom''" and st = st and err = "Some ''boom''" and rest = "[]"
            and name = "''scatter''" and fig_no = "Figure ''scatter''"
            and fig_with = "Figure ''scatter+template''" and tt' = "''scatter''"
            and e' = "Exception ''no kaleido''"]
    r t w a bar_args [of "no_random 0" "px faulty_env ''bar''"]
    faulty_bar_raises faulty_bar_can_use faulty_bar_entry faulty_export
  show ?thesis by (simp add: st_def)
qed

text \<open>
  C1, as stated, fails: it says that an exception raised while the figures are built is
  logged to the console with its text. On \<open>boom_env\<close> the plot-kind \<^verbatim>\<open>scatter\<close> passes the
  eligibility check, \<^verbatim>\<open>px.scatter\<close> raises \<^verbatim>\<open>boom\<close>, \<open>create_plot_comparison\<close> returns that text
  as the reason, the run returns, and no line of its console contains \<^verbatim>\<open>boom\<close>: \<open>main\<close>
  drops the reason.
\<close>

theorem construct_exception_not_logged:
  "can_use_discrete_colors boom_env ''scatter'' (px boom_env ''scatter'') (PType ''Scatter'')
     ''scatter'' = Inr (True, None)
   \<and> create_plot_comparison boom_env (no_random 0) ''scatter'' (px boom_env ''scatter'') (PType ''Scatter'')
       ''scatter'' (projr (create_comprehensive_template boom_env)) = Inr (None, Some ''boom'')
   \<and> \<not> isl (main boom_env no_random)
   \<and> \<not> list_ex (sublist ''boom'') (console (projr (main boom_env no_random)))"
proof -
  obtain r where r: "main boom_env no_random = Inr r"
    using boom_runs by blast
  have "\<not> list_ex (sublist ''boom'') (console r)"
    unfolding boom_console [OF r]
    by (simp add: banner_def check_mark_def sublist_Cons_right eval_nat_numeral)
  with r boom_can_use boom_scatter show ?thesis by simp
qed

text \<open>
  C2, as the code has it. For a plot-kind whose entry in the table of example arguments
  is \<^verbatim>\<open>None\<close>: when the library calls of \<^verbatim>\<open>get_plot_args\<close> return,
  \<open>create_plot_comparison\<close> returns no figures and the reason
  \<^verbatim>\<open>No test data configured for <name>\<close>, in the loop of \<open>main\<close> a reason string is returned
  for it, by the eligibility check or else by \<open>create_plot_comparison\<close>, and that iteration
  leaves the list of working comparisons and the console as they were; and a run that
  returns has no section for the plot-kind.
\<close>

theorem unavailable_kinds_skipped:
  assumes "map_of (args_map img) px_name = Some None"
  shows "(data_error lib = None \<longrightarrow>
            create_plot_comparison lib img px_name px_fn c tt tpl
              = Inr (None, Some (''No test data configured for '' @ px_name))
          \<and> (\<exists>reason. can_use_discrete_colors lib px_name px_fn c tt = Inr (False, Some reason)
               \<or> (can_use_discrete_colors lib px_name px_fn c tt = Inr (True, None)
                  \<and> create_plot_comparison lib img px_name px_fn c tt tpl
                      = Inr (None, Some reason)))
          \<and> (\<exists>k. main_step lib rnd tpl (px_name, px_fn, c, tt) st = Inr (st\<lparr>rand_calls := k\<rparr>)))
     \<and> (main lib rnd = Inr r
          \<longrightarrow> px_name \<notin> set (map fst (works_with_template r))
            \<and> px_name \<notin> set (map section_name (run_sections lib r)))"
proof -
  from assms have n: "args_map_get img px_name = None"
    by (simp add: none_args_iff)
  have 1: "create_plot_comparison lib img px_name px_fn c tt tpl
              = Inr (None, Some (''No test data configured for '' @ px_name))
          \<and> (\<exists>reason. can_use_discrete_colors lib px_name px_fn c tt = Inr (False, Some reason)
               \<or> (can_use_discrete_colors lib px_name px_fn c tt = Inr (True, None)
                  \<and> create_plot_comparison lib img px_name px_fn c tt tpl
                      = Inr (None, Some reason)))
          \<and> (\<exists>k. main_step lib rnd tpl (px_name, px_fn, c, tt) st = Inr (st\<lparr>rand_calls := k\<rparr>))"
    if d: "data_error lib = None"
  proof -
    from d n have g: "get_plot_args lib img px_name px_fn = Inr None"
      by (simp add: get_plot_args_Inr)
    from cpc_None [OF g, of c tt tpl] reason_unavailable [OF g, of c tt tpl]
      main_step_unavailable [OF g, of rnd tpl c tt st]
    show ?thesis by blast
  qed
  have 4: "px_name \<notin> set (map fst (works_with_template r))
            \<and> px_name \<notin> set (map section_name (run_sections lib r))"
    if m: "main lib rnd = Inr r"
  proof -
    have w: "px_name \<notin> set (map fst (works_with_template r))"
      by (rule run_omits_none [OF n m])
    then have "px_name \<notin> set (map section_name (run_sections lib r))"
      unfolding run_sections_def using section_name_in_works by blast
    with w show ?thesis by simp
  qed
  from 1 4 show ?thesis by blast
qed

theorem unavailable_kinds_skipped_witness:
  "map_of (args_map (no_random 0)) ''line_map'' = Some None
   \<and> data_error demo_env = None
   \<and> create_plot_comparison demo_env (no_random 0) ''line_map'' (px demo_env ''line_map'')
        (PType ''Scattermap'') ''scattermap'' (NamedTemplate ''plotly'')
       = Inr (None, Some ''No test data configured for line_map'')
   \<and> \<not> isl (main demo_env no_random)
   \<and> ''line_map'' \<notin> set (map section_name (run_sections demo_env (projr (main demo_env no_random))))"
proof -
  obtain r where r: "main demo_env no_random = Inr r"
    using demo_runs by blast
  have a: "map_of (args_map (no_random 0)) ''line_map'' = Some None"
    by (simp add: none_marked_iff)
  from unavailable_kinds_skipped
         [OF a, where px_fn = "px demo_env ''line_map''" and c = "PType ''Scattermap''"
            and tt = "''scattermap''" and tpl = "NamedTemplate ''plotly''" and lib = demo_env
            and rnd = no_random and r = r] a r demo_data
  show ?thesis by simp
qed

text \<open>
  C2, as stated, fails: it says that the skip reason is recorded. On \<open>demo_env\<close>, where every
  plot function works, \<^verbatim>\<open>scatter_geo\<close> has the entry \<^verbatim>\<open>None\<close>, passes the eligibility check and
  gets the reason \<^verbatim>\<open>No test data configured for scatter_geo\<close> from
  \<open>create_plot_comparison\<close>; the run returns with 25 working comparisons, and nothing it
  leaves names \<^verbatim>\<open>scatter_geo\<close>: not the list, not a section of the report, not a line of
  the console.
\<close>

theorem skip_reason_not_recorded:
  "map_of (args_map (no_random 0)) ''scatter_geo'' = Some None
   \<and> can_use_discrete_colors demo_env ''scatter_geo'' (px demo_env ''scatter_geo'')
        (PType ''Scattergeo'') ''scattergeo'' = Inr (True, None)
   \<and> create_plot_comparison demo_env (no_random 0) ''scatter_geo'' (px demo_env ''scatter_geo'')
        (PType ''Scattergeo'') ''scattergeo'' (projr (create_comprehensive_template demo_env))
       = Inr (None, Some ''No test data configured for scatter_geo'')
   \<and> \<not> isl (main demo_env no_random)
   \<and> length (works_with_template (projr (main demo_env no_random))) = 25
   \<and> ''scatter_geo'' \<notin> set (map fst (works_with_template (projr (main demo_env no_random))))
   \<and> ''scatter_geo''
        \<notin> set (map section_name (run_sections demo_env (projr (main demo_env no_random))))
   \<and> \<not> list_ex (sublist ''scatter_geo'') (console (projr (main demo_env no_random)))"
proof -
  obtain r where r: "main demo_env no_random = Inr r"
    using demo_runs by blast
  have a: "map_of (args_map (no_random 0)) ''scatter_geo'' = Some None"
    by (simp add: none_marked_iff)
  then have "get_plot_args demo_env (no_random 0) ''scatter_geo'' (px demo_env ''scatter_geo'')
      = Inr None"
    by (simp add: get_plot_args_Inr [OF demo_data] none_args_iff)
  note cp = cpc_None [OF this, of "PType ''Scattergeo''" "''scattergeo''"
                  "projr (create_comprehensive_template demo_env)"]
  have w: "works_with_template r = demo_works" by (rule demo_works_run [OF r])
  have l: "length demo_works = 25" by (simp add: demo_works_def)
  have n: "''scatter_geo'' \<notin> set (map fst demo_works)" by (simp add: demo_works_def)
  then have s: "''scatter_geo'' \<notin> set (map section_name (run_sections demo_env r))"
    unfolding run_sections_def w using section_name_in_works by blast
  have c: "\<not> list_ex (sublist ''scatter_geo'') (console r)"
    unfolding demo_console [OF r] by (rule demo_console_scan)
  from a demo_geo_can_use cp r w l n s c show ?thesis by simp
qed

text \<open>
  C3. For every plot-kind in the static discrete-color exclusion set (density_heatmap,
  density_map, density_mapbox, choropleth, choropleth_map, choropleth_mapbox, imshow,
  parallel_coordinates, parallel_categories), a run of \<open>main\<close> that returns has no section
  for it in the report.
\<close>

theorem excluded_kinds_have_no_section:
  assumes "px_name \<in> {''density_heatmap'', ''density_map'', ''density_mapbox'', ''choropleth'',
             ''choropleth_map'', ''choropleth_mapbox'', ''imshow'', ''parallel_coordinates'',
             ''parallel_categories''}"
    and "main lib rnd = Inr r"
  shows "px_name \<notin> set (map section_name (run_sections lib r))"
proof
  assume "px_name \<in> set (map section_name (run_sections lib r))"
  then obtain s where s: "s \<in> set (report_sections lib (works_with_template r))"
      "section_name s = px_name"
    by (auto simp: run_sections_def)
  from section_is_work [OF s(1)] s(2) obtain figs tt where
    w: "(px_name, figs, tt) \<in> set (works_with_template r)"
    by auto
  from run_works [OF assms(2)] w obtain tpl where
    "built lib rnd tpl (PX_FUNCTIONS lib) (px_name, figs, tt)"
    by blast
  then have "px_name \<notin> no_discrete" by (simp add: built_def)
  with assms(1) show False by (simp add: no_discrete_def)
qed

theorem excluded_kinds_have_no_section_witness:
  "\<not> isl (main demo_env no_random)
   \<and> ''imshow'' \<notin> set (map section_name (run_sections demo_env (projr (main demo_env no_random))))"
proof -
  obtain r where r: "main demo_env no_random = Inr r"
    using demo_runs by blast
  have "''imshow'' \<notin> set (map section_name (run_sections demo_env r))"
    by (rule excluded_kinds_have_no_section [OF _ r]) simp
  with r show ?thesis by simp
qed

text \<open>
  C4, as the code has it. Every section of the report of a run holds the two images: the
  first embedded string is the base64 text of the bytes that the export wrote for the
  figure built without the template, the second that of the figure built with it; the
  text of the section has the block \<^verbatim>\<open>Without Template\<close> with the first string and then the
  block \<^verbatim>\<open>With Template\<close> with the second, and is part of the HTML written. Each string is
  non-empty exactly when the export wrote at least one byte.
\<close>

theorem sections_hold_exported_images:
  assumes \<open>main lib rnd = Inr r\<close>
    and \<open>s \<in> set (run_sections lib r)\<close>
  shows \<open>(\<exists>fig_no fig_with tt tpl px_fn c k args bytes_no bytes_with.
        (section_name s, (fig_no, fig_with), tt) \<in> set (works_with_template r)
      \<and> create_comprehensive_template lib = Inr tpl
      \<and> (section_name s, px_fn, c, tt) \<in> set (PX_FUNCTIONS lib)
      \<and> get_plot_args lib (rnd k) (section_name s) px_fn = Inr (Some args)
      \<and> px_fn args = Inr fig_no
      \<and> px_fn (AList.update ''template'' (PTemplate tpl) args) = Inr fig_with
      \<and> export_png lib fig_no = Inr (image_no s)
      \<and> export_png lib fig_with = Inr (image_with s)
      \<and> write_image lib fig_no ''png'' 700 500 2 = Inr bytes_no
      \<and> write_image lib fig_with ''png'' 700 500 2 = Inr bytes_with
      \<and> image_no s = b64encode bytes_no
      \<and> image_with s = b64encode bytes_with
      \<and> (image_no s \<noteq> [] \<longleftrightarrow> bytes_no \<noteq> [])
      \<and> (image_with s \<noteq> [] \<longleftrightarrow> bytes_with \<noteq> []))
    \<and> (\<exists>pre mid post. render_section s =
          pre @ ''<h3>Without Template</h3>\<newline>                    <img src="data:image/png;base64,''
              @ image_no s
              @ mid @ ''<h3>With Template</h3>\<newline>                    <img src="data:image/png;base64,''
              @ image_with s @ post)
    \<and> (\<exists>pre post. html_content r = pre @ render_section s @ post)\<close>
proof -
  from section_origin [OF assms] obtain fig_no fig_with tt tpl px_fn c k args where
    o: "(section_name s, (fig_no, fig_with), tt) \<in> set (works_with_template r)"
       "create_comprehensive_template lib = Inr tpl"
       "(section_name s, px_fn, c, tt) \<in> set (PX_FUNCTIONS lib)"
       "get_plot_args lib (rnd k) (section_name s) px_fn = Inr (Some args)"
       "px_fn args = Inr fig_no"
       "px_fn (AList.update ''template'' (PTemplate tpl) args) = Inr fig_with"
    and x: "export_png lib fig_no = Inr (image_no s)"
    and y: "export_png lib fig_with = Inr (image_with s)"
    by blast
  from export_png_Inr [OF x] obtain bytes_no where
    bn: "write_image lib fig_no ''png'' 700 500 2 = Inr bytes_no"
        "image_no s = b64encode bytes_no"
    by blast
  from export_png_Inr [OF y] obtain bytes_with where
    bw: "write_image lib fig_with ''png'' 700 500 2 = Inr bytes_with"
        "image_with s = b64encode bytes_with"
    by blast
  have e: "(image_no s \<noteq> [] \<longleftrightarrow> bytes_no \<noteq> []) \<and> (image_with s \<noteq> [] \<longleftrightarrow> bytes_with \<noteq> [])"
    by (simp add: bn(2) bw(2) b64encode_Nil_iff)
  from o x y bn bw e have 1:
    "\<exists>fig_no fig_with tt tpl px_fn c k args bytes_no bytes_with.
        (section_name s, (fig_no, fig_with), tt) \<in> set (works_with_template r)
      \<and> create_comprehensive_template lib = Inr tpl
      \<and> (section_name s, px_fn, c, tt) \<in> set (PX_FUNCTIONS lib)
      \<and> get_plot_args lib (rnd k) (section_name s) px_fn = Inr (Some args)
      \<and> px_fn args = Inr fig_no
      \<and> px_fn (AList.update ''template'' (PTemplate tpl) args) = Inr fig_with
      \<and> export_png lib fig_no = Inr (image_no s)
      \<and> export_png lib fig_with = Inr (image_with s)
      \<and> write_image lib fig_no ''png'' 700 500 2 = Inr bytes_no
      \<and> write_image lib fig_with ''png'' 700 500 2 = Inr bytes_with
      \<and> image_no s = b64encode bytes_no
      \<and> image_with s = b64encode bytes_with
      \<and> (image_no s \<noteq> [] \<longleftrightarrow> bytes_no \<noteq> [])
      \<and> (image_with s \<noteq> [] \<longleftrightarrow> bytes_with \<noteq> [])"
    by blast
  from main_Inr [OF assms(1)]
  have "html_content r = html_of_sections (run_sections lib r)" by blast
  with section_in_html [OF assms(2)]
  have 2: "\<exists>pre post. html_content r = pre @ render_section s @ post" by simp
  from 1 2 section_html_images [of "section_name s" "image_no s" "image_with s" "section_code s"]
  show ?thesis unfolding render_section_def by blast
qed

theorem sections_hold_exported_images_witness:
  "\<not> isl (main picture_env no_random)
   \<and> \<lparr>section_name = ''scatter'', image_no = ''iVA='', image_with = ''iVBORw=='',
       section_code = generate_template_code_display ''scatter''\<rparr>
        \<in> set (run_sections picture_env (projr (main picture_env no_random)))
   \<and> export_png picture_env (Figure ''scatter'') = Inr ''iVA=''
   \<and> export_png picture_env (Figure ''scatter+template'') = Inr ''iVBORw==''
   \<and> (\<exists>pre post. html_content (projr (main picture_env no_random))
         = pre @ section_html ''scatter'' ''iVA='' ''iVBORw==''
                   (generate_template_code_display ''scatter'') @ post)"
proof -
  obtain r where r: "main picture_env no_random = Inr r"
    using picture_runs by blast
  define s where "s = \<lparr>section_name = ''scatter'', image_no = ''iVA='', image_with = ''iVBORw=='',
       section_code = generate_template_code_display ''scatter''\<rparr>"
  have m: "s \<in> set (run_sections picture_env r)"
    unfolding run_sections_def s_def
    by (rule report_sections_complete [OF picture_scatter_works [OF r] picture_export])
  from sections_hold_exported_images [OF r m]
  have "\<exists>pre post. html_content r = pre @ render_section s @ post" by blast
  with r m export_images_Inr [OF picture_export] show ?thesis
    by (simp add: s_def render_section_def)
qed

text \<open>
  C4, as stated, fails: it says that both embedded strings are non-empty. On \<open>empty_env\<close>
  the export returns without having written a byte; the script does not look at the
  buffer, and the report of the run has the section of \<^verbatim>\<open>scatter\<close> with two empty strings.
\<close>

theorem section_with_empty_images:
  "write_image empty_env (Figure ''scatter'') ''png'' 700 500 2 = Inr []
   \<and> \<not> isl (main empty_env no_random)
   \<and> \<lparr>section_name = ''scatter'', image_no = [], image_with = [],
       section_code = generate_template_code_display ''scatter''\<rparr>
        \<in> set (run_sections empty_env (projr (main empty_env no_random)))"
proof -
  obtain r where r: "main empty_env no_random = Inr r"
    using empty_runs by blast
  have "\<lparr>section_name = ''scatter'', image_no = [], image_with = [],
       section_code = generate_template_code_display ''scatter''\<rparr>
        \<in> set (run_sections empty_env r)"
    unfolding run_sections_def
    by (rule report_sections_complete [OF empty_scatter_works [OF r] empty_export])
  with r show ?thesis by (simp add: demo_env_def empty_env_def)
qed

text \<open>
  C5. Two runs on the same library and datasets give the same result, figures included,
  whatever arrays the random generator draws: the library calls are functions of their
  arguments, and the only random argument, the image array of \<^verbatim>\<open>imshow\<close>, is never passed
  on. \<^verbatim>\<open>imshow\<close> is in the exclusion set, so the run is also the same whatever the px
  function of \<^verbatim>\<open>imshow\<close> would do: it is not called. The arguments of every other
  plot-kind do not depend on the array.
\<close>

theorem runs_do_not_depend_on_random_array:
  "main lib rnd = main lib rnd'
   \<and> main (lib\<lparr>px := (px lib)(''imshow'' := f)\<rparr>) rnd = main lib rnd
   \<and> get_plot_args lib img ''imshow'' px_fn
       = (case data_error lib of Some e \<Rightarrow> Inl e | None \<Rightarrow> Inr (Some [(''img'', PArray img)]))
   \<and> (px_name \<noteq> ''imshow''
        \<longrightarrow> get_plot_args lib img px_name px_fn = get_plot_args lib img' px_name px_fn)
   \<and> ''imshow'' \<in> no_discrete"
proof -
  have "args_map_get img ''imshow'' = Some [(''img'', PArray img)]"
    by (simp add: args_map_get_def args_map_def)
  then have "get_plot_args lib img ''imshow'' px_fn
       = (case data_error lib of Some e \<Rightarrow> Inl e | None \<Rightarrow> Inr (Some [(''img'', PArray img)]))"
    by (simp add: get_plot_args_def split: option.splits)
  then show ?thesis
    using main_rnd_eq [of lib rnd rnd'] main_imshow [of lib f rnd]
      get_plot_args_img [of px_name lib img px_fn img'] imshow_no_discrete
    by simp
qed

theorem runs_do_not_depend_on_random_array_witness:
  "main demo_env no_random = main demo_env half_random
   \<and> ''scatter'' \<noteq> ''imshow''
   \<and> get_plot_args demo_env [] ''scatter'' (px demo_env ''scatter'')
        = get_plot_args demo_env (half_random 0) ''scatter'' (px demo_env ''scatter'')"
  using runs_do_not_depend_on_random_array
          [where lib = demo_env and rnd = no_random and rnd' = half_random and img = "[]"
             and px_fn = "px demo_env ''scatter''" and px_name = "''scatter''"
             and img' = "half_random 0"]
  by (simp add: half_random_def)

text \<open>
  C6. For every run, the number of sections of the report is at most the number of entries
  of \<open>PX_FUNCTIONS\<close>, which is 40: the names of the sections are a subsequence of the keys
  of the table, so each section comes from one entry, and no name occurs twice.
\<close>

theorem sections_at_most_entries:
  assumes "main lib rnd = Inr r"
  shows "length (run_sections lib r) \<le> length (PX_FUNCTIONS lib)
     \<and> length (PX_FUNCTIONS lib) = 40
     \<and> subseq (map section_name (run_sections lib r)) (map fst (PX_FUNCTIONS lib))
     \<and> distinct (map section_name (run_sections lib r))"
proof -
  have sub: "subseq (map section_name (run_sections lib r)) (map fst (PX_FUNCTIONS lib))"
    by (rule run_sections_subseq [OF assms])
  from list_emb_length [OF sub]
  have "length (run_sections lib r) \<le> length (PX_FUNCTIONS lib)" by simp
  moreover have "distinct (map section_name (run_sections lib r))"
    using sub distinct_PX_FUNCTIONS by (rule subseq_distinct)
  ultimately show ?thesis using sub length_PX_FUNCTIONS by simp
qed

theorem sections_at_most_entries_witness:
  "\<not> isl (main demo_env no_random)
   \<and> length (run_sections demo_env (projr (main demo_env no_random))) \<le> 40"
proof -
  obtain r where r: "main demo_env no_random = Inr r"
    using demo_runs by blast
  from sections_at_most_entries [OF r] r show ?thesis by simp
qed

text \<open>
  C7. When the library accepts \<^verbatim>\<open>marker=dict(color=...)\<close> for the thirteen classes of
  \<open>trace_constructors\<close>, the template construction returns the merge of the default template
  \<^verbatim>\<open>plotly\<close> with a custom template whose data has, for each of the thirteen trace types in
  the order of the table, the list of exactly three traces of its class, built with the
  marker colors purple, lime, magenta in that order and with nothing but \<^verbatim>\<open>marker.color\<close>.
\<close>

theorem template_construction:
  assumes "\<forall>cls \<in> set (map snd trace_constructors). \<forall>color \<in> set template_colors.
             construct_error lib cls (marker_color color) = None"
  shows "length trace_constructors = 13
    \<and> (\<exists>data. create_comprehensive_template lib
                 = Inr (merge_templates (NamedTemplate ''plotly'') (Template data))
         \<and> map fst data = map fst trace_constructors
         \<and> (\<forall>(trace_type, cls) \<in> set trace_constructors.
               map_of data trace_type
                 = Some [Trace cls [(''marker'', PDict [(''color'', PStr ''purple'')])],
                         Trace cls [(''marker'', PDict [(''color'', PStr ''lime'')])],
                         Trace cls [(''marker'', PDict [(''color'', PStr ''magenta'')])]]))"
proof -
  define three where "three = (\<lambda>cls. map (\<lambda>color. Trace cls (marker_color color)) template_colors)"
  define data where "data = map (\<lambda>(trace_type, cls). (trace_type, three cls)) trace_constructors"
  have "fill_template_data lib trace_constructors []
      = Inr (fold (\<lambda>(trace_type, cls). AList.update trace_type (three cls)) trace_constructors [])"
    unfolding three_def by (rule fill_template_data_ok [OF assms])
  also have "fold (\<lambda>(trace_type, cls). AList.update trace_type (three cls)) trace_constructors []
      = data"
    unfolding data_def
    using fold_update_fresh [OF distinct_trace_constructors, of "[]" three] by simp
  finally have 1: "create_comprehensive_template lib
      = Inr (merge_templates (NamedTemplate ''plotly'') (Template data))"
    by (simp add: create_comprehensive_template_def)
  have 2: "map fst data = map fst trace_constructors"
    by (simp add: data_def case_prod_unfold comp_def)
  have 3: "map_of data trace_type
         = Some [Trace cls [(''marker'', PDict [(''color'', PStr ''purple'')])],
                 Trace cls [(''marker'', PDict [(''color'', PStr ''lime'')])],
                 Trace cls [(''marker'', PDict [(''color'', PStr ''magenta'')])]]"
    if "(trace_type, cls) \<in> set trace_constructors" for trace_type cls
  proof -
    from that have "map_of trace_constructors trace_type = Some cls"
      using distinct_trace_constructors by simp
    then have "map_of data trace_type = Some (three cls)"
      by (simp add: data_def map_of_map)
    then show ?thesis
      by (simp add: three_def template_colors_def marker_color_def)
  qed
  have 4: "length trace_constructors = 13"
    by (simp add: trace_constructors_def)
  from 1 2 3 4 show ?thesis by blast
qed

theorem template_construction_witness:
  "\<exists>data. create_comprehensive_template demo_env
              = Inr (merge_templates (NamedTemplate ''plotly'') (Template data))
      \<and> map_of data ''bar''
           = Some [Trace ''Bar'' [(''marker'', PDict [(''color'', PStr ''purple'')])],
                   Trace ''Bar'' [(''marker'', PDict [(''color'', PStr ''lime'')])],
                   Trace ''Bar'' [(''marker'', PDict [(''color'', PStr ''magenta'')])]]"
proof -
  have h: "\<forall>cls \<in> set (map snd trace_constructors). \<forall>color \<in> set template_colors.
             construct_error demo_env cls (marker_color color) = None"
    by (simp add: demo_env_def)
  have m: "(''bar'', ''Bar'') \<in> set trace_constructors"
    by (simp add: trace_constructors_def)
  from template_construction [OF h] m show ?thesis by blast
qed

text \<open>
  C8. Every key of the example-arguments table (\<open>args_map\<close> inside \<open>get_plot_args\<close>) is a key
  of the function table \<open>PX_FUNCTIONS\<close>: the two tables have the same keys, in the same
  order, whatever array was drawn and whatever the library is, and no key occurs twice.
\<close>

theorem args_map_keys_in_PX_FUNCTIONS:
  "set (map fst (args_map img)) \<subseteq> set (map fst (PX_FUNCTIONS lib))
   \<and> map fst (args_map img) = map fst (PX_FUNCTIONS lib)
   \<and> distinct (map fst (args_map img))"
  by (simp add: args_map_def PX_FUNCTIONS_def)

text \<open>
  C9, as the code has it. \<open>create_plot_comparison\<close> raises exactly when \<^verbatim>\<open>get_plot_args\<close>
  raises, that is when one of its dataset or data frame calls raises, and then with the
  same exception: the call stands before the \<^verbatim>\<open>try\<close> block. When \<^verbatim>\<open>get_plot_args\<close> returns,
  \<open>create_plot_comparison\<close> returns one of two shapes that exclude each other: the pair of
  figures with no reason, or no figures with a reason string; an exception of the px
  function is caught and its text is the reason. When the arguments are \<^verbatim>\<open>None\<close> (the entry
  of the table is the unavailable marker) the reason is
  \<^verbatim>\<open>No test data configured for <name>\<close>; when they are the empty dictionary (the name is not
  a key of the table) it is \<^verbatim>\<open>Missing required arguments for <name>\<close>; the two reasons
  differ.
\<close>

theorem create_plot_comparison_shapes:
  "(create_plot_comparison lib img px_name px_fn c tt tpl = Inl e
      \<longleftrightarrow> get_plot_args lib img px_name px_fn = Inl e)
   \<and> (get_plot_args lib img px_name px_fn = Inl e \<longleftrightarrow> data_error lib = Some e)
   \<and> (data_error lib = None \<longrightarrow>
        (\<exists>res err. create_plot_comparison lib img px_name px_fn c tt tpl = Inr (res, err)
           \<and> ((\<exists>figs. res = Some figs \<and> err = None) \<or> (\<exists>reason. res = None \<and> err = Some reason))
           \<and> \<not> ((\<exists>figs. res = Some figs \<and> err = None)
                \<and> (\<exists>reason. res = None \<and> err = Some reason))))
   \<and> (get_plot_args lib img px_name px_fn = Inr (Some args) \<and> args \<noteq> []
        \<and> construct_figures px_fn args tpl = Inr figs
       \<longrightarrow> create_plot_comparison lib img px_name px_fn c tt tpl = Inr (Some figs, None))
   \<and> (get_plot_args lib img px_name px_fn = Inr (Some args) \<and> args \<noteq> []
        \<and> construct_figures px_fn args tpl = Inl e'
       \<longrightarrow> create_plot_comparison lib img px_name px_fn c tt tpl = Inr (None, Some (str_of e')))
   \<and> (get_plot_args lib img px_name px_fn = Inr None \<longrightarrow>
        create_plot_comparison lib img px_name px_fn c tt tpl
          = Inr (None, Some (''No test data configured for '' @ px_name)))
   \<and> (get_plot_args lib img px_name px_fn = Inr (Some []) \<longrightarrow>
        create_plot_comparison lib img px_name px_fn c tt tpl
          = Inr (None, Some (''Missing required arguments for '' @ px_name)))
   \<and> (get_plot_args lib img px_name px_fn = Inr None
        \<longleftrightarrow> data_error lib = None \<and> map_of (args_map img) px_name = Some None)
   \<and> (get_plot_args lib img px_name px_fn = Inr (Some [])
        \<longleftrightarrow> data_error lib = None \<and> px_name \<notin> set (map fst (args_map img)))
   \<and> ''No test data configured for '' @ px_name \<noteq> ''Missing required arguments for '' @ px_name"
proof -
  have 1: "create_plot_comparison lib img px_name px_fn c tt tpl = Inl e
      \<longleftrightarrow> get_plot_args lib img px_name px_fn = Inl e"
    by (rule cpc_Inl_iff)
  have 2: "get_plot_args lib img px_name px_fn = Inl e \<longleftrightarrow> data_error lib = Some e"
    by (auto simp: get_plot_args_def split: option.splits)
  have 3: "\<exists>res err. create_plot_comparison lib img px_name px_fn c tt tpl = Inr (res, err)
           \<and> ((\<exists>figs. res = Some figs \<and> err = None) \<or> (\<exists>reason. res = None \<and> err = Some reason))
           \<and> \<not> ((\<exists>figs. res = Some figs \<and> err = None)
                \<and> (\<exists>reason. res = None \<and> err = Some reason))"
    if d: "data_error lib = None"
  proof -
    obtain res err where
      r: "create_plot_comparison lib img px_name px_fn c tt tpl = Inr (res, err)"
      using cpc_returns [OF get_plot_args_Inr [OF d]] by (metis surj_pair)
    then have "(\<exists>figs. res = Some figs \<and> err = None) \<or> (\<exists>reason. res = None \<and> err = Some reason)"
      by (auto simp: create_plot_comparison_def try_except_def
               split: option.splits sum.splits if_splits)
    with r show ?thesis by auto
  qed
  have 4: "get_plot_args lib img px_name px_fn = Inr (Some args) \<and> args \<noteq> []
        \<and> construct_figures px_fn args tpl = Inr figs
       \<longrightarrow> create_plot_comparison lib img px_name px_fn c tt tpl = Inr (Some figs, None)"
    by (simp add: create_plot_comparison_def try_except_def)
  have 5: "get_plot_args lib img px_name px_fn = Inr (Some args) \<and> args \<noteq> []
        \<and> construct_figures px_fn args tpl = Inl e'
       \<longrightarrow> create_plot_comparison lib img px_name px_fn c tt tpl = Inr (None, Some (str_of e'))"
    using cpc_raise by blast
  have "get_plot_args lib img px_name px_fn = Inr None
        \<longleftrightarrow> data_error lib = None \<and> args_map_get img px_name = None"
    by (auto simp: get_plot_args_Inr_iff)
  then have 8: "get_plot_args lib img px_name px_fn = Inr None
        \<longleftrightarrow> data_error lib = None \<and> map_of (args_map img) px_name = Some None"
    by (simp add: none_args_iff)
  have "get_plot_args lib img px_name px_fn = Inr (Some [])
        \<longleftrightarrow> data_error lib = None \<and> args_map_get img px_name = Some []"
    by (auto simp: get_plot_args_Inr_iff)
  then have 9: "get_plot_args lib img px_name px_fn = Inr (Some [])
        \<longleftrightarrow> data_error lib = None \<and> px_name \<notin> set (map fst (args_map img))"
    by (simp add: empty_args_iff)
  show ?thesis
    using 1 2 3 4 5 8 9 cpc_None [of lib img px_name px_fn c tt tpl]
      cpc_empty [of lib img px_name px_fn c tt tpl]
    by simp
qed

theorem create_plot_comparison_shapes_witness:
  "data_error demo_env = None
   \<and> get_plot_args demo_env [] ''scatter_geo'' (px demo_env ''scatter_geo'') = Inr None
   \<and> create_plot_comparison demo_env [] ''scatter_geo'' (px demo_env ''scatter_geo'')
        (PType ''Scattergeo'') ''scattergeo'' (NamedTemplate ''plotly'')
      = Inr (None, Some ''No test data configured for scatter_geo'')
   \<and> get_plot_args demo_env [] ''heatmap'' (px demo_env ''heatmap'') = Inr (Some [])
   \<and> create_plot_comparison demo_env [] ''heatmap'' (px demo_env ''heatmap'') PNone []
        (NamedTemplate ''plotly'')
      = Inr (None, Some ''Missing required arguments for heatmap'')
   \<and> get_plot_args faulty_env [] ''bar'' (px faulty_env ''bar'')
      = Inr (Some [(''data_frame'', PFrame tips), (''x'', PStr ''day''),
                   (''y'', PStr ''total_bill''), (''color'', PStr ''sex'')])
   \<and> create_plot_comparison faulty_env [] ''bar'' (px faulty_env ''bar'') (PType ''Bar'') ''bar''
        (NamedTemplate ''plotly'')
      = Inr (None, Some ''boom'')"
proof -
  have a: "get_plot_args demo_env [] ''scatter_geo'' (px demo_env ''scatter_geo'') = Inr None"
    by (simp add: get_plot_args_Inr [OF demo_data] args_map_get_def args_map_def)
  have b: "get_plot_args demo_env [] ''heatmap'' (px demo_env ''heatmap'') = Inr (Some [])"
    by (simp add: get_plot_args_Inr [OF demo_data] args_map_get_def args_map_def)
  from a b demo_data bar_args [of "[]" "px faulty_env ''bar''"] faulty_bar_raises
    create_plot_comparison_shapes
      [where lib = demo_env and img = "[]" and px_name = "''scatter_geo''"
         and px_fn = "px demo_env ''scatter_geo''" and c = "PType ''Scattergeo''"
         and tt = "''scattergeo''" and tpl = "NamedTemplate ''plotly''"]
    create_plot_comparison_shapes
      [where lib = demo_env and img = "[]" and px_name = "''heatmap''"
         and px_fn = "px demo_env ''heatmap''" and c = PNone and tt = "[]"
         and tpl = "NamedTemplate ''plotly''"]
    create_plot_comparison_shapes
      [where lib = faulty_env and img = "[]" and px_name = "''bar''"
         and px_fn = "px faulty_env ''bar''" and c = "PType ''Bar''" and tt = "''bar''"
         and tpl = "NamedTemplate ''plotly''"
         and args = "[(''data_frame'', PFrame tips), (''x'', PStr ''day''),
                      (''y'', PStr ''total_bill''), (''color'', PStr ''sex'')]"
         and e' = "Exception ''boom''"]
  show ?thesis by simp
qed

text \<open>
  C9, as stated, fails: it says that \<open>create_plot_comparison\<close> never raises. On \<open>nodata_env\<close>
  the loader \<^verbatim>\<open>px.data.tips()\<close>, the first call of \<^verbatim>\<open>get_plot_args\<close>, raises; the call of
  \<^verbatim>\<open>get_plot_args\<close> is outside the \<^verbatim>\<open>try\<close> block, and \<open>create_plot_comparison\<close> ends with
  that exception, as does the run.
\<close>

theorem create_plot_comparison_raises:
  "library_error nodata_env ''px.data.tips'' = Some (Exception ''tips.csv.gz not found'')
   \<and> create_plot_comparison nodata_env (no_random 0) ''scatter'' (px nodata_env ''scatter'')
        (PType ''Scatter'') ''scatter'' (NamedTemplate ''plotly'')
      = Inl (Exception ''tips.csv.gz not found'')
   \<and> main nodata_env no_random = Inl (Exception ''tips.csv.gz not found'')"
proof -
  have 1: "library_error nodata_env ''px.data.tips'' = Some (Exception ''tips.csv.gz not found'')"
    by (simp add: nodata_env_def)
  have 2: "create_plot_comparison nodata_env (no_random 0) ''scatter'' (px nodata_env ''scatter'')
        (PType ''Scatter'') ''scatter'' (NamedTemplate ''plotly'')
      = Inl (Exception ''tips.csv.gz not found'')"
    by (simp add: cpc_Inl_iff get_plot_args_Inl [OF nodata_error])
  have 3: "main nodata_env no_random = Inl (Exception ''tips.csv.gz not found'')"
    by (rule nodata_main)
  from 1 2 3 show ?thesis by simp
qed

text \<open>
  C10, as the code has it. The entry of \<^verbatim>\<open>timeline\<close> in \<open>PX_FUNCTIONS\<close> carries the string
  \<^verbatim>\<open>"timeline"\<close> in place of a class. On it the marker-color test builds a \<^verbatim>\<open>Bar\<close> trace with
  the marker color red and returns whether the library built it and the trace has the
  attributes \<^verbatim>\<open>marker\<close> and \<^verbatim>\<open>marker.color\<close>: \<^verbatim>\<open>True\<close> when it did and has, \<^verbatim>\<open>False\<close>
  otherwise. On a class the test does the same with that class. On every other value that
  is not a class the test returns \<^verbatim>\<open>False\<close>; on no value does it raise.
\<close>

theorem timeline_tested_on_bar:
  "map_of (PX_FUNCTIONS lib) ''timeline'' = Some (px lib ''timeline'', PStr ''timeline'', ''bar'')
   \<and> test_trace_supports_marker_color lib (PStr ''timeline'')
       = Inr (construct_error lib ''Bar'' [(''marker'', PDict [(''color'', PStr ''red'')])] = None
              \<and> has_attr lib (Trace ''Bar'' [(''marker'', PDict [(''color'', PStr ''red'')])])
                   [''marker'']
              \<and> has_attr lib (Trace ''Bar'' [(''marker'', PDict [(''color'', PStr ''red'')])])
                   [''marker'', ''color''])
   \<and> test_trace_supports_marker_color lib (PType cls)
       = Inr (construct_error lib cls [(''marker'', PDict [(''color'', PStr ''red'')])] = None
              \<and> has_attr lib (Trace cls [(''marker'', PDict [(''color'', PStr ''red'')])])
                   [''marker'']
              \<and> has_attr lib (Trace cls [(''marker'', PDict [(''color'', PStr ''red'')])])
                   [''marker'', ''color''])
   \<and> (\<not> is_type constructor \<and> constructor \<noteq> PStr ''timeline''
       \<longrightarrow> test_trace_supports_marker_color lib constructor = Inr False)
   \<and> (\<exists>b. test_trace_supports_marker_color lib constructor = Inr b)"
proof -
  have 1: "map_of (PX_FUNCTIONS lib) ''timeline''
      = Some (px lib ''timeline'', PStr ''timeline'', ''bar'')"
    by (simp add: PX_FUNCTIONS_def)
  show ?thesis
    using 1 test_timeline [of lib] test_class [of lib cls] test_other [of constructor lib]
      test_returns [of lib constructor]
    by (simp add: marker_color_def has_marker_color_def)
qed

theorem timeline_tested_on_bar_witness:
  "test_trace_supports_marker_color demo_env (PStr ''timeline'') = Inr True
   \<and> test_trace_supports_marker_color nobar_env (PType ''Bar'') = Inr False
   \<and> test_trace_supports_marker_color nobar_env (PType ''Scatter'') = Inr True
   \<and> \<not> is_type (PStr ''bar'') \<and> PStr ''bar'' \<noteq> PStr ''timeline''
   \<and> test_trace_supports_marker_color demo_env (PStr ''bar'') = Inr False
   \<and> \<not> is_type PNone
   \<and> test_trace_supports_marker_color demo_env PNone = Inr False"
proof -
  have b: "\<not> is_type (PStr ''bar'') \<and> PStr ''bar'' \<noteq> PStr ''timeline'' \<and> \<not> is_type PNone"
    by (simp add: is_type_def)
  from b timeline_tested_on_bar [of demo_env "''Bar''" "PStr ''bar''"]
    timeline_tested_on_bar [of demo_env "''Bar''" PNone]
    timeline_tested_on_bar [of nobar_env "''Bar''" PNone]
    timeline_tested_on_bar [of nobar_env "''Scatter''" PNone]
  show ?thesis by (simp add: demo_env_def nobar_env_def)
qed

text \<open>
  C10, as stated, fails: it says that the test on \<^verbatim>\<open>"timeline"\<close> returns \<^verbatim>\<open>True\<close>. The script
  returns what the library lets it: on \<open>nobar_env\<close>, where the class \<^verbatim>\<open>Bar\<close> rejects the
  marker argument, the \<^verbatim>\<open>except\<close> clause turns the exception into \<^verbatim>\<open>False\<close>.
\<close>

theorem timeline_test_false:
  "construct_error nobar_env ''Bar'' (marker_color ''red'')
     = Some (Exception ''unexpected keyword argument'')
   \<and> test_trace_supports_marker_color nobar_env (PStr ''timeline'') = Inr False"
  by (simp add: test_timeline demo_env_def nobar_env_def)

end
